theory Spec2Isabelle
  imports Main
begin

section \<open>Exceptions and raw cache values\<close>

text \<open>
  Python exceptions as values. The orchestrator distinguishes three classes:
  \<^item> \<open>CodeforcesEditorialError msg cause\<close>: the domain error (or a subclass), with
    its message and its \<open>__cause__\<close>;
  \<^item> \<open>StdException msg\<close>: any other instance of \<open>Exception\<close>, with its \<open>str()\<close>;
  \<^item> \<open>BaseOnly msg\<close>: an instance of \<open>BaseException\<close> outside \<open>Exception\<close>
    (KeyboardInterrupt, SystemExit, asyncio.CancelledError), which the clause
    \<open>except Exception\<close> does not catch.
\<close>

datatype exn =
    CodeforcesEditorialError string "exn option"
  | StdException string
  | BaseOnly string

fun is_domain :: "exn \<Rightarrow> bool" where
  "is_domain (CodeforcesEditorialError _ _) = True"
| "is_domain _ = False"

fun is_Exception :: "exn \<Rightarrow> bool" where
  "is_Exception (BaseOnly _) = False"
| "is_Exception _ = True"

fun str_exn :: "exn \<Rightarrow> string" where
  "str_exn (CodeforcesEditorialError m _) = m"
| "str_exn (StdException m) = m"
| "str_exn (BaseOnly m) = m"

text \<open>
  The raw value a cache backend stores and returns: \<open>PyNone\<close> is an absent key.
  \<open>truthy\<close> is Python's truth value, which \<open>if cached_data:\<close> tests.
\<close>

datatype pyval =
    PyNone
  | PyBool bool
  | PyInt int
  | PyStr string
  | PyList "pyval list"
  | PyDict "(string \<times> pyval) list"

fun truthy :: "pyval \<Rightarrow> bool" where
  "truthy PyNone = False"
| "truthy (PyBool b) = b"
| "truthy (PyInt i) = (i \<noteq> 0)"
| "truthy (PyStr s) = (s \<noteq> [])"
| "truthy (PyList xs) = (xs \<noteq> [])"
| "truthy (PyDict kvs) = (kvs \<noteq> [])"

section \<open>Data model\<close>

text \<open>
  The identifier, problem data, tutorial data, tutorial format and editorial are opaque to
  the orchestrator: type variables \<open>'i\<close>, \<open>'p\<close>, \<open>'t\<close>, \<open>'f\<close>, \<open>'e\<close>. The cache
  envelope is built by keyword in \<open>_save_to_cache\<close> and read through \<open>.editorial\<close> in
  \<open>_get_from_cache\<close>.
\<close>

record ('i, 'e, 'f) CachedEditorial =
  problem :: 'i
  editorial :: 'e
  tutorial_url :: string
  tutorial_format :: 'f

datatype level = DEBUG | INFO | WARNING | ERROR

text \<open>
  What a call does to the outside: one event per awaited collaborator call, with its
  arguments, and one per logger call, with the message template.
\<close>

datatype ('i, 't) event =
    Cache_get string
  | Cache_set string pyval
  | Cache_flushdb
  | Parse_problem_page 'i
  | Find_tutorial 'i
  | Tutorial_parse string
  | Extract 't 'i string
  | Log level string

text \<open>
  A collaborator runs on the state \<open>'w\<close> of the outside world (network, AI service, cache
  backend) and returns a value or raises.
\<close>

type_synonym ('a, 'w) io = "'w \<Rightarrow> (exn + 'a) \<times> 'w"

record 'w cache_client =
  cache_get :: "string \<Rightarrow> (pyval, 'w) io"
  cache_set :: "string \<Rightarrow> pyval \<Rightarrow> (unit, 'w) io"
  flushdb :: "(unit, 'w) io"

type_synonym ref = nat

text \<open>The fields \<open>__init__\<close> assigns. A client object is a reference; a present cache
  client is truthy.\<close>

record ('w, 'i, 'p, 't, 'e) orchestrator =
  http_client :: ref
  ai_client :: ref
  cache_client :: "'w cache_client option"
  use_cache :: bool
  problem_parser :: "'i \<Rightarrow> ('p, 'w) io"
  tutorial_parser :: "string \<Rightarrow> ('t, 'w) io"
  tutorial_finder :: "'i \<Rightarrow> (string, 'w) io"
  editorial_extractor :: "'t \<Rightarrow> 'i \<Rightarrow> string \<Rightarrow> ('e, 'w) io"

text \<open>
  The names the module imports from \<open>domain\<close>, whose code is not in \<open>orchestrator.py\<close>:
  they are parameters. \<open>cache_key\<close>, \<open>title\<close> and \<open>format\<close> are the attributes
  \<open>identifier.cache_key\<close>, \<open>problem_data.title\<close> and \<open>tutorial_data.format\<close>.
\<close>

record ('w, 'i, 'p, 't, 'f, 'e) domain =
  URLParser_parse :: "string \<Rightarrow> exn + 'i"
  cache_key :: "'i \<Rightarrow> string"
  title :: "'p \<Rightarrow> string"
  format :: "'t \<Rightarrow> 'f"
  from_dict :: "pyval \<Rightarrow> exn + ('i, 'e, 'f) CachedEditorial"
  to_dict :: "('i, 'e, 'f) CachedEditorial \<Rightarrow> exn + pyval"
  ProblemPageParser :: "ref \<Rightarrow> 'i \<Rightarrow> ('p, 'w) io"
  TutorialParser :: "ref \<Rightarrow> string \<Rightarrow> ('t, 'w) io"
  TutorialFinder :: "ref \<Rightarrow> ref \<Rightarrow> 'i \<Rightarrow> (string, 'w) io"
  EditorialExtractor :: "ref \<Rightarrow> 't \<Rightarrow> 'i \<Rightarrow> string \<Rightarrow> ('e, 'w) io"

text \<open>The state a method runs in: the orchestrator object, the outside world, and the
  events so far.\<close>

record ('w, 'i, 'p, 't, 'e) state =
  self :: "('w, 'i, 'p, 't, 'e) orchestrator"
  world :: 'w
  trace :: "('i, 't) event list"

section \<open>Control flow\<close>

type_synonym ('a, 's) prog = "'s \<Rightarrow> (exn + 'a) \<times> 's"

definition returnE :: "'a \<Rightarrow> ('a, 's) prog" where
  "returnE x = (\<lambda>s. (Inr x, s))"

definition raiseE :: "exn \<Rightarrow> ('a, 's) prog" where
  "raiseE e = (\<lambda>s. (Inl e, s))"

definition liftE :: "exn + 'a \<Rightarrow> ('a, 's) prog" where
  "liftE r = (\<lambda>s. (r, s))"

definition bindE :: "('a, 's) prog \<Rightarrow> ('a \<Rightarrow> ('b, 's) prog) \<Rightarrow> ('b, 's) prog" where
  "bindE m f = (\<lambda>s. case m s of (Inl e, s') \<Rightarrow> (Inl e, s') | (Inr x, s') \<Rightarrow> f x s')"

text \<open>\<open>try: m\<close> followed by \<open>except\<close> clauses \<open>h\<close>, which decide by the exception.\<close>

definition try_except :: "('a, 's) prog \<Rightarrow> (exn \<Rightarrow> ('a, 's) prog) \<Rightarrow> ('a, 's) prog" where
  "try_except m h =
     (\<lambda>s. case m s of (Inl e, s') \<Rightarrow> h e s' | (Inr x, s') \<Rightarrow> (Inr x, s'))"

text \<open>\<open>try: m except Exception as e: h e\<close>: an exception outside \<open>Exception\<close> passes.\<close>

definition except_Exception :: "('a, 's) prog \<Rightarrow> (exn \<Rightarrow> ('a, 's) prog) \<Rightarrow> ('a, 's) prog" where
  "except_Exception m h = try_except m (\<lambda>e. if is_Exception e then h e else raiseE e)"

definition log :: "level \<Rightarrow> string \<Rightarrow> (unit, ('w, 'i, 'p, 't, 'e) state) prog" where
  "log lv msg = (\<lambda>s. (Inr (), s\<lparr>trace := trace s @ [Log lv msg]\<rparr>))"

text \<open>An awaited call of a collaborator: the event is recorded whether the call returns
  or raises, and only the world changes.\<close>

definition call ::
  "('i, 't) event \<Rightarrow> ('a, 'w) io \<Rightarrow> ('a, ('w, 'i, 'p, 't, 'e) state) prog" where
  "call ev f =
     (\<lambda>s. case f (world s) of (r, w') \<Rightarrow> (r, s\<lparr>world := w', trace := trace s @ [ev]\<rparr>))"

section \<open>The orchestrator\<close>

definition init ::
  "('w, 'i, 'p, 't, 'f, 'e) domain \<Rightarrow> ref \<Rightarrow> ref \<Rightarrow> 'w cache_client option \<Rightarrow> bool
   \<Rightarrow> ('w, 'i, 'p, 't, 'e) orchestrator" where
  "init D http ai cache uc =
     \<lparr> http_client = http,
       ai_client = ai,
       cache_client = cache,
       use_cache = (uc \<and> cache \<noteq> None),
       problem_parser = ProblemPageParser D http,
       tutorial_parser = TutorialParser D http,
       tutorial_finder = TutorialFinder D ai http,
       editorial_extractor = EditorialExtractor D ai \<rparr>"

text \<open>\<open>_get_from_cache\<close> (an Isabelle name cannot start with an underscore).\<close>

definition get_from_cache ::
  "('w, 'i, 'p, 't, 'f, 'e) domain \<Rightarrow> 'i \<Rightarrow> ('e option, ('w, 'i, 'p, 't, 'e) state) prog" where
  "get_from_cache D identifier =
     (\<lambda>s. case cache_client (self s) of
        None \<Rightarrow> returnE None s
      | Some c \<Rightarrow>
          except_Exception
            (bindE (call (Cache_get (cache_key D identifier)) (cache_get c (cache_key D identifier)))
               (\<lambda>cached_data.
                  if truthy cached_data then
                    bindE (log DEBUG ''Get editorial for {identifier=} from cache'') (\<lambda>_.
                    bindE (liftE (from_dict D cached_data)) (\<lambda>cached.
                    returnE (Some (editorial cached))))
                  else
                    bindE (log DEBUG ''Cache miss for {identifier.cache_key}'') (\<lambda>_.
                    returnE None)))
            (\<lambda>e. bindE (log WARNING ''Cache retrieval failed: {e}'') (\<lambda>_. returnE None))
            s)"

text \<open>\<open>_save_to_cache\<close>.\<close>

definition save_to_cache ::
  "('w, 'i, 'p, 't, 'f, 'e) domain \<Rightarrow> 'i \<Rightarrow> 'e \<Rightarrow> string \<Rightarrow> 'f
   \<Rightarrow> (unit, ('w, 'i, 'p, 't, 'e) state) prog" where
  "save_to_cache D identifier ed url fmt =
     (\<lambda>s. case cache_client (self s) of
        None \<Rightarrow> returnE () s
      | Some c \<Rightarrow>
          except_Exception
            (bindE (log DEBUG ''Saving editorial to cache: {identifier.cache_key}'') (\<lambda>_.
             bindE (liftE (to_dict D
                      \<lparr> problem = identifier, editorial = ed,
                        tutorial_url = url, tutorial_format = fmt \<rparr>)) (\<lambda>cached_data.
             call (Cache_set (cache_key D identifier) cached_data)
                  (cache_set c (cache_key D identifier) cached_data))))
            (\<lambda>e. log WARNING ''Failed to save to cache: {e}'')
            s)"

text \<open>Lines 60 to 86 of \<open>get_editorial\<close>: what runs when the cache gave nothing.\<close>

definition get_editorial_pipeline ::
  "('w, 'i, 'p, 't, 'f, 'e) domain \<Rightarrow> 'i \<Rightarrow> ('e \<times> 'p, ('w, 'i, 'p, 't, 'e) state) prog" where
  "get_editorial_pipeline D identifier =
     bindE (log DEBUG ''Parsing problem page for {identifier}'') (\<lambda>_.
     bindE (\<lambda>s. call (Parse_problem_page identifier) (problem_parser (self s) identifier) s)
       (\<lambda>problem_data.
     bindE (log DEBUG ''Finding tutorial for {identifier}'') (\<lambda>_.
     bindE (\<lambda>s. call (Find_tutorial identifier) (tutorial_finder (self s) identifier) s)
       (\<lambda>turl.
     bindE (log DEBUG ''Parsing tutorial content from {tutorial_url}'') (\<lambda>_.
     bindE (\<lambda>s. call (Tutorial_parse turl) (tutorial_parser (self s) turl) s)
       (\<lambda>tutorial_data.
     bindE (log DEBUG ''Extracting editorial content'') (\<lambda>_.
     bindE (\<lambda>s. call (Extract tutorial_data identifier (title D problem_data))
                   (editorial_extractor (self s) tutorial_data identifier (title D problem_data)) s)
       (\<lambda>ed.
     bindE (\<lambda>s. if use_cache (self s) \<and> cache_client (self s) \<noteq> None
                 then save_to_cache D identifier ed turl (format D tutorial_data) s
                 else returnE () s) (\<lambda>_.
     bindE (log INFO ''Editorial extraction completed for {identifier}'') (\<lambda>_.
     returnE (ed, problem_data)))))))))))"

text \<open>The body of the \<open>try\<close> of \<open>get_editorial\<close>. \<open>if cached_result:\<close> is the test
  for \<open>Some\<close>: an editorial is an object, and an object is truthy.\<close>

definition get_editorial_try ::
  "('w, 'i, 'p, 't, 'f, 'e) domain \<Rightarrow> string \<Rightarrow> ('e \<times> 'p, ('w, 'i, 'p, 't, 'e) state) prog" where
  "get_editorial_try D url =
     bindE (liftE (URLParser_parse D url)) (\<lambda>identifier.
     bindE (log DEBUG ''Resolved problem identifier: {identifier}'') (\<lambda>_.
     (\<lambda>s. if use_cache (self s) \<and> cache_client (self s) \<noteq> None then
             bindE (get_from_cache D identifier) (\<lambda>cached_result.
               case cached_result of
                 Some ced \<Rightarrow>
                   bindE (\<lambda>s. call (Parse_problem_page identifier)
                                 (problem_parser (self s) identifier) s)
                     (\<lambda>problem_data. returnE (ced, problem_data))
               | None \<Rightarrow> get_editorial_pipeline D identifier) s
           else get_editorial_pipeline D identifier s)))"

text \<open>The two \<open>except\<close> clauses of \<open>get_editorial\<close>, in the source's order.\<close>

definition get_editorial_except :: "exn \<Rightarrow> ('a, ('w, 'i, 'p, 't, 'e) state) prog" where
  "get_editorial_except e =
     (if is_domain e then raiseE e
      else if is_Exception e then
        bindE (log ERROR ''Unexpected error in orchestrator: {e}'') (\<lambda>_.
        raiseE (CodeforcesEditorialError (''Failed to get editorial: '' @ str_exn e) (Some e)))
      else raiseE e)"

definition get_editorial ::
  "('w, 'i, 'p, 't, 'f, 'e) domain \<Rightarrow> string \<Rightarrow> ('e \<times> 'p, ('w, 'i, 'p, 't, 'e) state) prog" where
  "get_editorial D url =
     bindE (log DEBUG ''Starting editorial extraction for URL: {url}'') (\<lambda>_.
     try_except (get_editorial_try D url) get_editorial_except)"

definition clear_cache :: "(unit, ('w, 'i, 'p, 't, 'e) state) prog" where
  "clear_cache =
     (\<lambda>s. case cache_client (self s) of
        Some c \<Rightarrow> bindE (log INFO ''Clearing cache'') (\<lambda>_. call Cache_flushdb (flushdb c)) s
      | None \<Rightarrow> log WARNING ''Cache is not enabled'' s)"

section \<open>Observations on a trace\<close>

text \<open>The collaborator calls of a trace, in order, without the logger's lines.\<close>

fun is_call :: "('i, 't) event \<Rightarrow> bool" where
  "is_call (Log _ _) = False"
| "is_call _ = True"

definition calls :: "('i, 't) event list \<Rightarrow> ('i, 't) event list" where
  "calls evs = filter is_call evs"

text \<open>The calls that reach the cache backend.\<close>

fun is_cache_call :: "('i, 't) event \<Rightarrow> bool" where
  "is_cache_call (Cache_get _) = True"
| "is_cache_call (Cache_set _ _) = True"
| "is_cache_call Cache_flushdb = True"
| "is_cache_call _ = False"

definition cache_calls :: "('i, 't) event list \<Rightarrow> ('i, 't) event list" where
  "cache_calls evs = filter is_cache_call evs"

text \<open>
  What the two \<open>except\<close> clauses of \<open>get_editorial\<close> hand to the caller for an exception
  \<open>e\<close> of class \<open>Exception\<close>: \<open>e\<close> itself when it is a domain error, otherwise the domain
  error built from it, with \<open>e\<close> as cause.
\<close>

definition wrapped :: "exn \<Rightarrow> exn" where
  "wrapped e = CodeforcesEditorialError (''Failed to get editorial: '' @ str_exn e) (Some e)"

definition surfaced :: "exn \<Rightarrow> exn" where
  "surfaced e = (if is_domain e then e else wrapped e)"

text \<open>
  Outcomes of the cache layer's collaborators at a world \<open>w\<close>. \<open>read_raises\<close>: the backend
  read or the deserialization of what it returned raises an \<open>Exception\<close>.
  \<open>read_absent\<close>: the backend returns a falsy value. \<open>write_settles\<close>: serialization and
  backend write return, or one of them raises an \<open>Exception\<close>.
\<close>

definition read_raises ::
  "('w, 'i, 'p, 't, 'f, 'e) domain \<Rightarrow> 'w cache_client \<Rightarrow> string \<Rightarrow> 'w \<Rightarrow> bool" where
  "read_raises D c k w =
     (case fst (cache_get c k w) of
        Inl e \<Rightarrow> is_Exception e
      | Inr raw \<Rightarrow> truthy raw \<and> (case from_dict D raw of Inl e \<Rightarrow> is_Exception e | Inr _ \<Rightarrow> False))"

definition read_absent :: "'w cache_client \<Rightarrow> string \<Rightarrow> 'w \<Rightarrow> bool" where
  "read_absent c k w = (case fst (cache_get c k w) of Inl e \<Rightarrow> False | Inr raw \<Rightarrow> \<not> truthy raw)"

definition write_raises ::
  "('w, 'i, 'p, 't, 'f, 'e) domain \<Rightarrow> 'w cache_client \<Rightarrow> string
   \<Rightarrow> ('i, 'e, 'f) CachedEditorial \<Rightarrow> 'w \<Rightarrow> bool" where
  "write_raises D c k env w =
     (case to_dict D env of
        Inl e \<Rightarrow> is_Exception e
      | Inr raw \<Rightarrow> (case fst (cache_set c k raw w) of Inl e \<Rightarrow> is_Exception e | Inr _ \<Rightarrow> False))"

definition write_settles ::
  "('w, 'i, 'p, 't, 'f, 'e) domain \<Rightarrow> 'w cache_client \<Rightarrow> string
   \<Rightarrow> ('i, 'e, 'f) CachedEditorial \<Rightarrow> 'w \<Rightarrow> bool" where
  "write_settles D c k env w =
     (case to_dict D env of
        Inl e \<Rightarrow> is_Exception e
      | Inr raw \<Rightarrow> (case fst (cache_set c k raw w) of Inl e \<Rightarrow> is_Exception e | Inr _ \<Rightarrow> True))"

text \<open>
  The call reaches line 60, the start of the pipeline, with the outside world \<open>w1\<close>:
  the guard of line 54 fails, or it holds and \<open>_get_from_cache\<close> returns \<open>None\<close>.
\<close>

definition reaches_pipeline ::
  "('w, 'i, 'p, 't, 'f, 'e) domain \<Rightarrow> 'i \<Rightarrow> ('w, 'i, 'p, 't, 'e) state \<Rightarrow> 'w \<Rightarrow> bool" where
  "reaches_pipeline D ident s w1 =
     (if use_cache (self s) \<and> cache_client (self s) \<noteq> None
      then fst (get_from_cache D ident s) = Inr None
           \<and> w1 = world (snd (get_from_cache D ident s))
      else w1 = world s)"

section \<open>The cache envelope's representation\<close>

text \<open>
  Modelled from the spec: the module \<open>domain.models\<close> (\<open>ProblemIdentifier\<close>,
  \<open>TutorialFormat\<close>, \<open>Editorial\<close>, \<open>CachedEditorial.to_dict\<close> and
  \<open>CachedEditorial.from_dict\<close>) is not among the sources. The spec gives an identifier of
  a contest code and a problem index, a format tag (prose, markdown, structured), an
  editorial of explanation sections, and an envelope that serializes to a mapping of
  string keys to primitive or structured values.
\<close>

text \<open>Modelled from the spec: \<open>ProblemIdentifier\<close> (absent \<open>domain.models\<close>), the
  contest code and the problem index.\<close>

record ProblemIdentifier =
  contest_id :: int
  problem_index :: string

text \<open>Modelled from the spec: \<open>TutorialFormat\<close> (absent \<open>domain.models\<close>), an
  enumerated tag.\<close>

datatype TutorialFormat = Prose | Markdown | Structured

text \<open>Modelled from the spec: \<open>Editorial\<close> (absent \<open>domain.models\<close>), the
  explanation sections.\<close>

record Editorial =
  sections :: "string list"

text \<open>Modelled from the spec: sequencing of the steps of a deserialization (part of the
  absent \<open>domain.models\<close>); the first step that raises ends it.\<close>

definition bindR :: "exn + 'a \<Rightarrow> ('a \<Rightarrow> exn + 'b) \<Rightarrow> exn + 'b" where
  "bindR r f = (case r of Inl e \<Rightarrow> Inl e | Inr x \<Rightarrow> f x)"

text \<open>Modelled from the spec: \<open>d[k]\<close> on a stored mapping (part of the absent
  \<open>domain.models\<close>), a \<open>KeyError\<close> for a missing key.\<close>

fun getitem :: "pyval \<Rightarrow> string \<Rightarrow> exn + pyval" where
  "getitem (PyDict kvs) k =
     (case map_of kvs k of None \<Rightarrow> Inl (StdException ''KeyError'') | Some v \<Rightarrow> Inr v)"
| "getitem _ k = Inl (StdException ''TypeError'')"

text \<open>Modelled from the spec: reading a primitive of the representation (part of the
  absent \<open>domain.models\<close>); a value of another shape is a \<open>ValueError\<close>.\<close>

fun as_str :: "pyval \<Rightarrow> exn + string" where
  "as_str (PyStr s) = Inr s"
| "as_str _ = Inl (StdException ''ValueError'')"

text \<open>Modelled from the spec: reading an integer of the representation (part of the
  absent \<open>domain.models\<close>).\<close>

fun as_int :: "pyval \<Rightarrow> exn + int" where
  "as_int (PyInt i) = Inr i"
| "as_int _ = Inl (StdException ''ValueError'')"

text \<open>Modelled from the spec: reading a list of strings of the representation (part of
  the absent \<open>domain.models\<close>).\<close>

fun as_strs :: "pyval list \<Rightarrow> exn + string list" where
  "as_strs [] = Inr []"
| "as_strs (v # vs) = bindR (as_str v) (\<lambda>s. bindR (as_strs vs) (\<lambda>ss. Inr (s # ss)))"

text \<open>Modelled from the spec: reading a list of the representation (part of the absent
  \<open>domain.models\<close>).\<close>

fun as_list :: "pyval \<Rightarrow> exn + pyval list" where
  "as_list (PyList vs) = Inr vs"
| "as_list _ = Inl (StdException ''ValueError'')"

text \<open>Modelled from the spec: the representation of \<open>ProblemIdentifier\<close> (absent
  \<open>domain.models\<close>), its two coordinates under their names.\<close>

definition identifier_to_dict :: "ProblemIdentifier \<Rightarrow> pyval" where
  "identifier_to_dict p =
     PyDict [(''contest_id'', PyInt (contest_id p)), (''problem_index'', PyStr (problem_index p))]"

text \<open>Modelled from the spec: reading a \<open>ProblemIdentifier\<close> back (absent
  \<open>domain.models\<close>).\<close>

definition identifier_from_dict :: "pyval \<Rightarrow> exn + ProblemIdentifier" where
  "identifier_from_dict d =
     bindR (bindR (getitem d ''contest_id'') as_int) (\<lambda>c.
     bindR (bindR (getitem d ''problem_index'') as_str) (\<lambda>i.
     Inr \<lparr> contest_id = c, problem_index = i \<rparr>))"

text \<open>Modelled from the spec: the representation of a \<open>TutorialFormat\<close> tag (absent
  \<open>domain.models\<close>), its name.\<close>

fun format_to_str :: "TutorialFormat \<Rightarrow> string" where
  "format_to_str Prose = ''prose''"
| "format_to_str Markdown = ''markdown''"
| "format_to_str Structured = ''structured''"

text \<open>Modelled from the spec: reading a \<open>TutorialFormat\<close> tag back (absent
  \<open>domain.models\<close>); an unknown name is a \<open>ValueError\<close>.\<close>

definition format_from_str :: "string \<Rightarrow> exn + TutorialFormat" where
  "format_from_str s =
     (if s = ''prose'' then Inr Prose
      else if s = ''markdown'' then Inr Markdown
      else if s = ''structured'' then Inr Structured
      else Inl (StdException ''ValueError''))"

text \<open>Modelled from the spec: the representation of an \<open>Editorial\<close> (absent
  \<open>domain.models\<close>), its sections in order.\<close>

definition editorial_to_dict :: "Editorial \<Rightarrow> pyval" where
  "editorial_to_dict e = PyDict [(''sections'', PyList (map PyStr (sections e)))]"

text \<open>Modelled from the spec: reading an \<open>Editorial\<close> back (absent
  \<open>domain.models\<close>).\<close>

definition editorial_from_dict :: "pyval \<Rightarrow> exn + Editorial" where
  "editorial_from_dict d =
     bindR (bindR (bindR (getitem d ''sections'') as_list) as_strs) (\<lambda>ss.
     Inr \<lparr> sections = ss \<rparr>)"

text \<open>Modelled from the spec: \<open>CachedEditorial.to_dict\<close> (absent \<open>domain.models\<close>),
  the four fields of the envelope under their names.\<close>

definition CachedEditorial_to_dict ::
  "(ProblemIdentifier, Editorial, TutorialFormat) CachedEditorial \<Rightarrow> pyval" where
  "CachedEditorial_to_dict x =
     PyDict [(''problem'', identifier_to_dict (problem x)),
             (''editorial'', editorial_to_dict (editorial x)),
             (''tutorial_url'', PyStr (tutorial_url x)),
             (''tutorial_format'', PyStr (format_to_str (tutorial_format x)))]"

text \<open>Modelled from the spec: \<open>CachedEditorial.from_dict\<close> (absent
  \<open>domain.models\<close>); a missing key or a value of the wrong shape raises.\<close>

definition CachedEditorial_from_dict ::
  "pyval \<Rightarrow> exn + (ProblemIdentifier, Editorial, TutorialFormat) CachedEditorial" where
  "CachedEditorial_from_dict d =
     bindR (bindR (getitem d ''problem'') identifier_from_dict) (\<lambda>p.
     bindR (bindR (getitem d ''editorial'') editorial_from_dict) (\<lambda>e.
     bindR (bindR (getitem d ''tutorial_url'') as_str) (\<lambda>u.
     bindR (bindR (bindR (getitem d ''tutorial_format'') as_str) format_from_str) (\<lambda>f.
     Inr \<lparr> problem = p, editorial = e, tutorial_url = u, tutorial_format = f \<rparr>))))"

section \<open>Test doubles\<close>

text \<open>
  The fixtures of \<open>tests/test_orchestrator.py\<close>: collaborators that return fixed values,
  here over a world that is the cache's contents. \<open>dict_cache\<close> is a cache client backed by
  a mapping, \<open>broken_cache\<close> one whose every operation raises.
\<close>

type_synonym store = "(string \<times> pyval) list"

definition dict_cache :: "store cache_client" where
  "dict_cache =
     \<lparr> cache_get = (\<lambda>k w. (Inr (case map_of w k of None \<Rightarrow> PyNone | Some v \<Rightarrow> v), w)),
       cache_set = (\<lambda>k v w. (Inr (), (k, v) # w)),
       flushdb = (\<lambda>w. (Inr (), [])) \<rparr>"

definition broken_cache :: "store cache_client" where
  "broken_cache =
     \<lparr> cache_get = (\<lambda>k w. (Inl (StdException ''ConnectionError''), w)),
       cache_set = (\<lambda>k v w. (Inl (StdException ''ConnectionError''), w)),
       flushdb = (\<lambda>w. (Inl (StdException ''ConnectionError''), w)) \<rparr>"

definition test_url :: string where
  "test_url = ''https://codeforces.com/problemset/problem/1234/A''"

definition test_identifier :: ProblemIdentifier where
  "test_identifier = \<lparr> contest_id = 1234, problem_index = ''A'' \<rparr>"

definition test_editorial :: Editorial where
  "test_editorial = \<lparr> sections = [''Greedy from the left.''] \<rparr>"

definition test_domain ::
  "(store, ProblemIdentifier, string, string \<times> TutorialFormat, TutorialFormat, Editorial) domain"
  where
  "test_domain =
     \<lparr> URLParser_parse =
         (\<lambda>u. if u = test_url then Inr test_identifier
               else Inl (CodeforcesEditorialError ''Invalid URL'' None)),
       cache_key = (\<lambda>i. ''editorial:'' @ problem_index i),
       title = (\<lambda>p. p),
       format = snd,
       from_dict = CachedEditorial_from_dict,
       to_dict = (\<lambda>x. Inr (CachedEditorial_to_dict x)),
       ProblemPageParser = (\<lambda>h i w. (Inr ''Test Problem'', w)),
       TutorialParser = (\<lambda>h u w. (Inr (''Sort, then sweep.'', Markdown), w)),
       TutorialFinder = (\<lambda>a h i w. (Inr ''http://tutorial.com'', w)),
       EditorialExtractor = (\<lambda>a t i ti w. (Inr test_editorial, w)) \<rparr>"

definition test_state ::
  "store cache_client option \<Rightarrow> bool \<Rightarrow> store
   \<Rightarrow> (store, ProblemIdentifier, string, string \<times> TutorialFormat, Editorial) state" where
  "test_state cache uc w = \<lparr> self = init test_domain 1 2 cache uc, world = w, trace = [] \<rparr>"

definition test_envelope ::
  "(ProblemIdentifier, Editorial, TutorialFormat) CachedEditorial" where
  "test_envelope =
     \<lparr> problem = test_identifier, editorial = test_editorial,
       tutorial_url = ''http://tutorial.com'', tutorial_format = Markdown \<rparr>"

text \<open>A cache that already holds the envelope of the test problem.\<close>

definition warm_store :: store where
  "warm_store = [(''editorial:A'', CachedEditorial_to_dict test_envelope)]"

text \<open>The fixture with \<open>problem_parser\<close> replaced by one that times out, as the tests
  replace the collaborators of a constructed orchestrator.\<close>

definition failing_fetch_state ::
  "store cache_client option \<Rightarrow> bool \<Rightarrow> store
   \<Rightarrow> (store, ProblemIdentifier, string, string \<times> TutorialFormat, Editorial) state" where
  "failing_fetch_state cache uc w =
     \<lparr> self = (init test_domain 1 2 cache uc)
                \<lparr> problem_parser := (\<lambda>i w. (Inl (StdException ''TimeoutError''), w)) \<rparr>,
       world = w, trace = [] \<rparr>"

text \<open>The fixture with collaborators replaced through \<open>patch\<close>, as the tests assign
  \<open>orch.problem_parser\<close> and the others after construction.\<close>

definition patched_state ::
  "((store, ProblemIdentifier, string, string \<times> TutorialFormat, Editorial) orchestrator
    \<Rightarrow> (store, ProblemIdentifier, string, string \<times> TutorialFormat, Editorial) orchestrator)
   \<Rightarrow> store cache_client option \<Rightarrow> bool \<Rightarrow> store
   \<Rightarrow> (store, ProblemIdentifier, string, string \<times> TutorialFormat, Editorial) state" where
  "patched_state patch cache uc w =
     \<lparr> self = patch (init test_domain 1 2 cache uc), world = w, trace = [] \<rparr>"

section \<open>Relations kept along a run\<close>

text \<open>A program is stable for a relation on states when every run relates the state
  before to the state after, whether it returns or raises.\<close>

definition stable :: "('s \<Rightarrow> 's \<Rightarrow> bool) \<Rightarrow> ('a, 's) prog \<Rightarrow> bool" where
  "stable R m = (\<forall>s. R s (snd (m s)))"

definition preorder_on_states :: "('s \<Rightarrow> 's \<Rightarrow> bool) \<Rightarrow> bool" where
  "preorder_on_states R = ((\<forall>s. R s s) \<and> (\<forall>a b c. R a b \<longrightarrow> R b c \<longrightarrow> R a c))"

text \<open>The orchestrator object is the same and the trace has only grown, without a flush
  of the cache.\<close>

definition keeps ::
  "('w, 'i, 'p, 't, 'e) state \<Rightarrow> ('w, 'i, 'p, 't, 'e) state \<Rightarrow> bool" where
  "keeps s s' =
     (self s' = self s \<and> (\<exists>evs. trace s' = trace s @ evs \<and> Cache_flushdb \<notin> set evs))"

text \<open>The guard of lines 54 and 77 fails.\<close>

definition disabled :: "('w, 'i, 'p, 't, 'e) state \<Rightarrow> bool" where
  "disabled s = (\<not> (use_cache (self s) \<and> cache_client (self s) \<noteq> None))"

definition quiet ::
  "('w, 'i, 'p, 't, 'e) state \<Rightarrow> ('w, 'i, 'p, 't, 'e) state \<Rightarrow> bool" where
  "quiet s s' =
     (disabled s \<longrightarrow> self s' = self s \<and> cache_calls (trace s') = cache_calls (trace s))"

section \<open>Basic facts\<close>

lemmas prog_defs =
  returnE_def raiseE_def liftE_def bindE_def try_except_def except_Exception_def log_def call_def

lemmas test_defs =
  test_state_def failing_fetch_state_def patched_state_def init_def test_domain_def dict_cache_def
  broken_cache_def test_url_def test_identifier_def test_editorial_def test_envelope_def
  warm_store_def

lemmas repr_defs =
  CachedEditorial_from_dict_def CachedEditorial_to_dict_def bindR_def
  identifier_from_dict_def identifier_to_dict_def editorial_from_dict_def editorial_to_dict_def

lemma as_strs_map: "as_strs (map PyStr xs) = Inr xs"
  by (induction xs) (simp_all add: bindR_def)

lemma format_from_str_to_str: "format_from_str (format_to_str f) = Inr f"
  by (cases f) (simp_all add: format_from_str_def)

lemma stable_returnE: "preorder_on_states R \<Longrightarrow> stable R (returnE x)"
  by (simp add: stable_def preorder_on_states_def returnE_def)

lemma stable_raiseE: "preorder_on_states R \<Longrightarrow> stable R (raiseE e)"
  by (simp add: stable_def preorder_on_states_def raiseE_def)

lemma stable_liftE: "preorder_on_states R \<Longrightarrow> stable R (liftE r)"
  by (simp add: stable_def preorder_on_states_def liftE_def)

lemma stable_bindE:
  assumes "preorder_on_states R" and "stable R m" and "\<And>x. stable R (f x)"
  shows "stable R (bindE m f)"
proof -
  have "R s (snd (bindE m f s))" for s
  proof (cases "m s")
    case (Pair r s')
    have first: "R s s'"
      using assms(2) Pair by (auto simp: stable_def dest: spec [of _ s])
    show ?thesis
    proof (cases r)
      case (Inl e)
      with Pair first show ?thesis by (simp add: bindE_def)
    next
      case (Inr x)
      have "R s' (snd (f x s'))"
        using assms(3) by (simp add: stable_def)
      with first assms(1) have "R s (snd (f x s'))"
        unfolding preorder_on_states_def by blast
      with Pair Inr show ?thesis by (simp add: bindE_def)
    qed
  qed
  then show ?thesis by (simp add: stable_def)
qed

lemma stable_try_except:
  assumes "preorder_on_states R" and "stable R m" and "\<And>e. stable R (h e)"
  shows "stable R (try_except m h)"
proof -
  have "R s (snd (try_except m h s))" for s
  proof (cases "m s")
    case (Pair r s')
    have first: "R s s'"
      using assms(2) Pair by (auto simp: stable_def dest: spec [of _ s])
    show ?thesis
    proof (cases r)
      case (Inr x)
      with Pair first show ?thesis by (simp add: try_except_def)
    next
      case (Inl e)
      have "R s' (snd (h e s'))"
        using assms(3) by (simp add: stable_def)
      with first assms(1) have "R s (snd (h e s'))"
        unfolding preorder_on_states_def by blast
      with Pair Inl show ?thesis by (simp add: try_except_def)
    qed
  qed
  then show ?thesis by (simp add: stable_def)
qed

lemma stable_except_Exception:
  assumes "preorder_on_states R" and "stable R m" and "\<And>e. stable R (h e)"
  shows "stable R (except_Exception m h)"
  unfolding except_Exception_def
  by (rule stable_try_except) (simp_all add: assms stable_raiseE)

lemma stable_if:
  assumes "stable R m1" and "stable R m2"
  shows "stable R (\<lambda>s. if b s then m1 s else m2 s)"
  using assms by (simp add: stable_def)

lemma stable_if_pure:
  assumes "stable R m1" and "stable R m2"
  shows "stable R (if b then m1 else m2)"
  using assms by simp

lemma stable_case_client:
  assumes "stable R m1" and "\<And>c. stable R (m2 c)"
  shows "stable R (\<lambda>s. case cache_client (self s) of None \<Rightarrow> m1 s | Some c \<Rightarrow> m2 c s)"
  using assms by (simp add: stable_def split: option.splits)

lemma stable_case_option:
  assumes "stable R m1" and "\<And>x. stable R (m2 x)"
  shows "stable R (case v of None \<Rightarrow> m1 | Some x \<Rightarrow> m2 x)"
  using assms by (cases v) simp_all

subsection \<open>The orchestrator object and the flush\<close>

lemma preorder_keeps: "preorder_on_states keeps"
  unfolding preorder_on_states_def keeps_def
proof (intro conjI allI impI)
  fix s :: "('w, 'i, 'p, 't, 'e) state"
  show "self s = self s" by simp
  show "\<exists>evs. trace s = trace s @ evs \<and> Cache_flushdb \<notin> set evs"
    by (rule exI [of _ "[]"]) simp
next
  fix a b c :: "('w, 'i, 'p, 't, 'e) state"
  assume ab: "self b = self a \<and> (\<exists>evs. trace b = trace a @ evs \<and> Cache_flushdb \<notin> set evs)"
    and bc: "self c = self b \<and> (\<exists>evs. trace c = trace b @ evs \<and> Cache_flushdb \<notin> set evs)"
  then show "self c = self a" by simp
  from ab obtain e1 where 1: "trace b = trace a @ e1" "Cache_flushdb \<notin> set e1" by blast
  from bc obtain e2 where 2: "trace c = trace b @ e2" "Cache_flushdb \<notin> set e2" by blast
  show "\<exists>evs. trace c = trace a @ evs \<and> Cache_flushdb \<notin> set evs"
    by (rule exI [of _ "e1 @ e2"]) (simp add: 1 2)
qed

lemma keeps_log: "stable keeps (log lv msg)"
  by (simp add: stable_def keeps_def log_def)

lemma keeps_call: "ev \<noteq> Cache_flushdb \<Longrightarrow> stable keeps (\<lambda>s. call ev (g s) s)"
  by (simp add: stable_def keeps_def call_def split: prod.splits)

lemmas keeps_intros =
  stable_bindE [OF preorder_keeps] stable_try_except [OF preorder_keeps]
  stable_except_Exception [OF preorder_keeps]
  stable_returnE [OF preorder_keeps] stable_raiseE [OF preorder_keeps]
  stable_liftE [OF preorder_keeps] keeps_log stable_if stable_if_pure
  stable_case_client stable_case_option

lemma keeps_get_from_cache: "stable keeps (get_from_cache D ident)"
  unfolding get_from_cache_def
  by (intro keeps_intros keeps_call [where g = "\<lambda>s. f" for f]) simp_all

lemma keeps_save_to_cache: "stable keeps (save_to_cache D ident ed turl fmt)"
  unfolding save_to_cache_def
  by (intro keeps_intros keeps_call [where g = "\<lambda>s. f" for f]) simp_all

lemma keeps_pipeline: "stable keeps (get_editorial_pipeline D ident)"
  unfolding get_editorial_pipeline_def
  by (intro keeps_intros keeps_call keeps_save_to_cache) simp_all

lemma keeps_try: "stable keeps (get_editorial_try D url)"
  unfolding get_editorial_try_def
  by (intro keeps_intros keeps_call keeps_get_from_cache keeps_pipeline) simp_all

lemma keeps_except: "stable keeps (get_editorial_except e)"
  unfolding get_editorial_except_def
  by (intro keeps_intros)

lemma keeps_get_editorial: "stable keeps (get_editorial D url)"
  unfolding get_editorial_def
  by (intro keeps_intros keeps_try keeps_except)

subsection \<open>Runs with the cache guard off\<close>

lemma preorder_quiet: "preorder_on_states quiet"
  by (simp add: preorder_on_states_def quiet_def disabled_def)

lemma quiet_log: "stable quiet (log lv msg)"
  by (simp add: stable_def quiet_def log_def cache_calls_def)

lemma quiet_call: "\<not> is_cache_call ev \<Longrightarrow> stable quiet (\<lambda>s. call ev (g s) s)"
  by (simp add: stable_def quiet_def call_def cache_calls_def split: prod.splits)

lemma quiet_guard:
  assumes "stable quiet m2"
  shows "stable quiet (\<lambda>s. if use_cache (self s) \<and> cache_client (self s) \<noteq> None
                           then m1 s else m2 s)"
  using assms by (auto simp add: stable_def quiet_def disabled_def)

lemmas quiet_intros =
  stable_bindE [OF preorder_quiet] stable_try_except [OF preorder_quiet]
  stable_returnE [OF preorder_quiet] stable_raiseE [OF preorder_quiet]
  stable_liftE [OF preorder_quiet] quiet_log quiet_guard stable_if_pure

lemma quiet_pipeline: "stable quiet (get_editorial_pipeline D ident)"
  unfolding get_editorial_pipeline_def
  by (intro quiet_intros quiet_call) simp_all

lemma quiet_try: "stable quiet (get_editorial_try D url)"
  unfolding get_editorial_try_def
  by (intro quiet_intros quiet_pipeline)

lemma quiet_except: "stable quiet (get_editorial_except e)"
  unfolding get_editorial_except_def
  by (intro quiet_intros)

lemma quiet_get_editorial: "stable quiet (get_editorial D url)"
  unfolding get_editorial_def
  by (intro quiet_intros quiet_try quiet_except)

section \<open>The claims\<close>

subsection \<open>Cache hit\<close>

text \<open>
  C1. On a call where caching is on and the lookup returns a cached editorial (the backend
  returns a truthy value that deserializes), the only collaborator calls are the cache read
  and one \<open>parse_problem_page\<close>: \<open>find_tutorial\<close>, the tutorial parser and the extractor
  are not called. The world is the one the problem-page fetch leaves, and when that fetch
  returns problem data the call returns the cached editorial paired with it.
\<close>

theorem cache_hit_short_circuit:
  assumes "use_cache (self s)" and "cache_client (self s) = Some c"
    and "URLParser_parse D url = Inr ident"
    and "cache_get c (cache_key D ident) (world s) = (Inr raw, w1)"
    and "truthy raw"
    and "from_dict D raw = Inr cached"
    and "problem_parser (self s) ident w1 = (r, w2)"
  shows "calls (trace (snd (get_editorial D url s)))
           = calls (trace s) @ [Cache_get (cache_key D ident), Parse_problem_page ident]
         \<and> world (snd (get_editorial D url s)) = w2
         \<and> (\<forall>pd. r = Inr pd \<longrightarrow> fst (get_editorial D url s) = Inr (editorial cached, pd))"
  using assms
  by (cases r)
     (simp_all add: get_editorial_def get_editorial_try_def get_from_cache_def
        get_editorial_except_def prog_defs calls_def)

theorem cache_hit_short_circuit_witness:
  "truthy (CachedEditorial_to_dict test_envelope)
   \<and> calls (trace (snd (get_editorial test_domain test_url
                          (test_state (Some dict_cache) True warm_store))))
       = [Cache_get ''editorial:A'', Parse_problem_page test_identifier]
   \<and> fst (get_editorial test_domain test_url (test_state (Some dict_cache) True warm_store))
       = Inr (test_editorial, ''Test Problem'')"
proof -
  let ?s = "test_state (Some dict_cache) True warm_store"
  have h1: "use_cache (self ?s)" by (simp add: test_defs)
  have h2: "cache_client (self ?s) = Some dict_cache" by (simp add: test_defs)
  have h3: "URLParser_parse test_domain test_url = Inr test_identifier"
    by (simp add: test_domain_def)
  have h4: "cache_get dict_cache (cache_key test_domain test_identifier) (world ?s)
              = (Inr (CachedEditorial_to_dict test_envelope), warm_store)"
    by (simp add: test_defs)
  have h5: "truthy (CachedEditorial_to_dict test_envelope)"
    by (simp add: CachedEditorial_to_dict_def)
  have h6: "from_dict test_domain (CachedEditorial_to_dict test_envelope) = Inr test_envelope"
    by (simp add: test_defs repr_defs format_from_str_def)
  have h7: "problem_parser (self ?s) test_identifier warm_store
              = (Inr ''Test Problem'', warm_store)"
    by (simp add: test_defs)
  have key: "cache_key test_domain test_identifier = ''editorial:A''"
    by (simp add: test_defs)
  have start: "calls (trace ?s) = []" by (simp add: test_defs calls_def)
  have ed: "editorial test_envelope = test_editorial" by (simp add: test_envelope_def)
  from cache_hit_short_circuit [OF h1 h2 h3 h4 h5 h6 h7] h5 show ?thesis
    by (simp add: key start ed)
qed

text \<open>
  C10. On a call where the lookup returns a cached editorial and the problem-page fetch
  then raises \<open>e\<close>, the call raises: a domain error as it is, another \<open>Exception\<close>
  wrapped in the domain error, anything else as it is. The cached editorial is not
  returned.
\<close>

theorem cache_hit_fetch_failure:
  assumes "use_cache (self s)" and "cache_client (self s) = Some c"
    and "URLParser_parse D url = Inr ident"
    and "cache_get c (cache_key D ident) (world s) = (Inr raw, w1)"
    and "truthy raw"
    and "from_dict D raw = Inr cached"
    and "problem_parser (self s) ident w1 = (Inl e, w2)"
  shows "fst (get_editorial D url s) = Inl (if is_Exception e then surfaced e else e)"
  using assms
  by (simp add: get_editorial_def get_editorial_try_def get_from_cache_def
        get_editorial_except_def prog_defs surfaced_def wrapped_def)

theorem cache_hit_fetch_failure_witness:
  "from_dict test_domain (CachedEditorial_to_dict test_envelope) = Inr test_envelope
   \<and> fst (get_editorial test_domain test_url
            (failing_fetch_state (Some dict_cache) True warm_store))
       = Inl (CodeforcesEditorialError ''Failed to get editorial: TimeoutError''
                (Some (StdException ''TimeoutError'')))"
proof -
  let ?s = "failing_fetch_state (Some dict_cache) True warm_store"
  have h1: "use_cache (self ?s)" by (simp add: test_defs)
  have h2: "cache_client (self ?s) = Some dict_cache" by (simp add: test_defs)
  have h3: "URLParser_parse test_domain test_url = Inr test_identifier"
    by (simp add: test_domain_def)
  have h4: "cache_get dict_cache (cache_key test_domain test_identifier) (world ?s)
              = (Inr (CachedEditorial_to_dict test_envelope), warm_store)"
    by (simp add: test_defs)
  have h5: "truthy (CachedEditorial_to_dict test_envelope)"
    by (simp add: CachedEditorial_to_dict_def)
  have h6: "from_dict test_domain (CachedEditorial_to_dict test_envelope) = Inr test_envelope"
    by (simp add: test_defs repr_defs format_from_str_def)
  have h7: "problem_parser (self ?s) test_identifier warm_store
              = (Inl (StdException ''TimeoutError''), warm_store)"
    by (simp add: test_defs)
  from cache_hit_fetch_failure [OF h1 h2 h3 h4 h5 h6 h7] h6 show ?thesis
    by (simp add: surfaced_def wrapped_def)
qed

subsection \<open>Faults of the cache layer\<close>

lemma get_from_cache_no_Exception:
  "fst (get_from_cache D ident s) = Inl e \<Longrightarrow> \<not> is_Exception e"
  by (auto simp add: get_from_cache_def prog_defs
      split: option.splits prod.splits sum.splits if_splits)

lemma save_to_cache_no_Exception:
  "fst (save_to_cache D ident ed turl fmt s) = Inl e \<Longrightarrow> \<not> is_Exception e"
  by (auto simp add: save_to_cache_def prog_defs
      split: option.splits prod.splits sum.splits if_splits)

lemma get_from_cache_raises:
  assumes "cache_client (self s) = Some c"
    and "read_raises D c (cache_key D ident) (world s)"
  shows "fst (get_from_cache D ident s) = Inr None"
  using assms
  by (auto simp add: get_from_cache_def read_raises_def prog_defs
      split: prod.splits sum.splits)

lemma get_from_cache_absent:
  assumes "cache_client (self s) = Some c"
    and "read_absent c (cache_key D ident) (world s)"
  shows "fst (get_from_cache D ident s) = Inr None"
  using assms
  by (auto simp add: get_from_cache_def read_absent_def prog_defs
      split: prod.splits sum.splits)

lemma get_from_cache_state:
  assumes "cache_client (self s) = Some c"
  shows "self (snd (get_from_cache D ident s)) = self s
       \<and> world (snd (get_from_cache D ident s)) = snd (cache_get c (cache_key D ident) (world s))"
  using assms
  by (auto simp add: get_from_cache_def prog_defs split: prod.splits sum.splits)

lemma save_to_cache_raises:
  assumes "cache_client (self s) = Some c"
    and "write_raises D c (cache_key D ident)
           \<lparr> problem = ident, editorial = ed, tutorial_url = turl, tutorial_format = fmt \<rparr>
           (world s)"
  shows "fst (save_to_cache D ident ed turl fmt s) = Inr ()"
  using assms
  by (auto simp add: save_to_cache_def write_raises_def prog_defs
      split: prod.splits sum.splits)

lemma save_to_cache_settles:
  assumes "cache_client (self s) = Some c"
    and "write_settles D c (cache_key D ident)
           \<lparr> problem = ident, editorial = ed, tutorial_url = turl, tutorial_format = fmt \<rparr>
           (world s)"
  shows "fst (save_to_cache D ident ed turl fmt s) = Inr ()"
  using assms
  by (auto simp add: save_to_cache_def write_settles_def prog_defs
      split: prod.splits sum.splits)

lemma pipeline_returns:
  assumes "use_cache (self s)" and "cache_client (self s) = Some c"
    and "problem_parser (self s) ident (world s) = (Inr pd, w2)"
    and "tutorial_finder (self s) ident w2 = (Inr turl, w3)"
    and "tutorial_parser (self s) turl w3 = (Inr td, w4)"
    and "editorial_extractor (self s) td ident (title D pd) w4 = (Inr ed, w5)"
    and "write_settles D c (cache_key D ident)
           \<lparr> problem = ident, editorial = ed, tutorial_url = turl,
             tutorial_format = format D td \<rparr> w5"
  shows "fst (get_editorial_pipeline D ident s) = Inr (ed, pd)"
proof -
  let ?s5 = "s\<lparr>world := w5,
               trace := trace s @
                 [Log DEBUG ''Parsing problem page for {identifier}'',
                  Parse_problem_page ident,
                  Log DEBUG ''Finding tutorial for {identifier}'',
                  Find_tutorial ident,
                  Log DEBUG ''Parsing tutorial content from {tutorial_url}'',
                  Tutorial_parse turl,
                  Log DEBUG ''Extracting editorial content'',
                  Extract td ident (title D pd)]\<rparr>"
  have saved: "fst (save_to_cache D ident ed turl (format D td) ?s5) = Inr ()"
    by (rule save_to_cache_settles [where c = c]) (simp_all add: assms)
  obtain u s6 where s6: "save_to_cache D ident ed turl (format D td) ?s5 = (u, s6)"
    by (cases "save_to_cache D ident ed turl (format D td) ?s5")
  with saved have "u = Inr ()" by simp
  with s6 assms(1-6) show ?thesis
    by (simp add: get_editorial_pipeline_def prog_defs)
qed

lemma try_except_returns: "fst (m s) = Inr r \<Longrightarrow> fst (try_except m h s) = Inr r"
  by (cases "m s") (auto simp add: try_except_def)

lemma get_editorial_after_miss:
  assumes "use_cache (self s)" and "cache_client (self s) = Some c"
    and "URLParser_parse D url = Inr ident"
    and "s1 = s\<lparr>trace := trace s @
                  [Log DEBUG ''Starting editorial extraction for URL: {url}'',
                   Log DEBUG ''Resolved problem identifier: {identifier}'']\<rparr>"
    and "fst (get_from_cache D ident s1) = Inr None"
  shows "get_editorial D url s =
           try_except (get_editorial_pipeline D ident) get_editorial_except
             (snd (get_from_cache D ident s1))"
proof -
  obtain r s2 where r: "get_from_cache D ident s1 = (r, s2)"
    by (cases "get_from_cache D ident s1")
  with assms(5) have "r = Inr None" by simp
  with r assms(1-4) show ?thesis
    by (simp add: get_editorial_def get_editorial_try_def bindE_def log_def liftE_def
        try_except_def)
qed

text \<open>
  C3. With \<open>Exception\<close> as the class of a failure:
  \<^item> neither \<open>_get_from_cache\<close> nor \<open>_save_to_cache\<close> ever raises an \<open>Exception\<close>;
  \<^item> when the backend read or the deserialization raises one, \<open>_get_from_cache\<close> returns
    \<open>None\<close>, what it returns on a miss;
  \<^item> when the serialization or the backend write raises one, \<open>_save_to_cache\<close> returns;
  \<^item> on a call with caching on whose read raises or finds nothing, whose four pipeline
    steps return, and whose write returns or raises, the call returns the editorial the
    extractor produced and the problem data.
\<close>

theorem cache_fault_tolerance:
  "(\<forall>e. fst (get_from_cache D ident s) = Inl e \<longrightarrow> \<not> is_Exception e)
   \<and> (\<forall>e. fst (save_to_cache D ident ed turl fmt s) = Inl e \<longrightarrow> \<not> is_Exception e)
   \<and> (cache_client (self s) = Some c \<and> read_raises D c (cache_key D ident) (world s) \<longrightarrow>
        fst (get_from_cache D ident s) = Inr None)
   \<and> (cache_client (self s) = Some c
        \<and> write_raises D c (cache_key D ident)
            \<lparr> problem = ident, editorial = ed, tutorial_url = turl, tutorial_format = fmt \<rparr>
            (world s) \<longrightarrow>
        fst (save_to_cache D ident ed turl fmt s) = Inr ())
   \<and> (use_cache (self s) \<and> cache_client (self s) = Some c
        \<and> URLParser_parse D url = Inr ident
        \<and> (read_raises D c (cache_key D ident) (world s)
             \<or> read_absent c (cache_key D ident) (world s))
        \<and> problem_parser (self s) ident (snd (cache_get c (cache_key D ident) (world s)))
             = (Inr pd, w2)
        \<and> tutorial_finder (self s) ident w2 = (Inr turl, w3)
        \<and> tutorial_parser (self s) turl w3 = (Inr td, w4)
        \<and> editorial_extractor (self s) td ident (title D pd) w4 = (Inr ed, w5)
        \<and> write_settles D c (cache_key D ident)
             \<lparr> problem = ident, editorial = ed, tutorial_url = turl,
               tutorial_format = format D td \<rparr> w5 \<longrightarrow>
        fst (get_editorial D url s) = Inr (ed, pd))"
proof (intro conjI allI impI)
  fix e assume "fst (get_from_cache D ident s) = Inl e"
  then show "\<not> is_Exception e" by (rule get_from_cache_no_Exception)
next
  fix e assume "fst (save_to_cache D ident ed turl fmt s) = Inl e"
  then show "\<not> is_Exception e" by (rule save_to_cache_no_Exception)
next
  assume "cache_client (self s) = Some c \<and> read_raises D c (cache_key D ident) (world s)"
  then show "fst (get_from_cache D ident s) = Inr None"
    by (simp add: get_from_cache_raises)
next
  assume "cache_client (self s) = Some c
        \<and> write_raises D c (cache_key D ident)
            \<lparr> problem = ident, editorial = ed, tutorial_url = turl, tutorial_format = fmt \<rparr>
            (world s)"
  then show "fst (save_to_cache D ident ed turl fmt s) = Inr ()"
    by (simp add: save_to_cache_raises)
next
  let ?k = "cache_key D ident"
  let ?s1 = "s\<lparr>trace := trace s @
                  [Log DEBUG ''Starting editorial extraction for URL: {url}'',
                   Log DEBUG ''Resolved problem identifier: {identifier}'']\<rparr>"
  let ?s2 = "snd (get_from_cache D ident ?s1)"
  assume a: "use_cache (self s) \<and> cache_client (self s) = Some c
        \<and> URLParser_parse D url = Inr ident
        \<and> (read_raises D c ?k (world s) \<or> read_absent c ?k (world s))
        \<and> problem_parser (self s) ident (snd (cache_get c ?k (world s))) = (Inr pd, w2)
        \<and> tutorial_finder (self s) ident w2 = (Inr turl, w3)
        \<and> tutorial_parser (self s) turl w3 = (Inr td, w4)
        \<and> editorial_extractor (self s) td ident (title D pd) w4 = (Inr ed, w5)
        \<and> write_settles D c ?k
             \<lparr> problem = ident, editorial = ed, tutorial_url = turl,
               tutorial_format = format D td \<rparr> w5"
  have client1: "cache_client (self ?s1) = Some c" using a by simp
  have "read_raises D c ?k (world ?s1) \<or> read_absent c ?k (world ?s1)" using a by simp
  then have miss: "fst (get_from_cache D ident ?s1) = Inr None"
  proof
    assume "read_raises D c ?k (world ?s1)"
    then show ?thesis by (rule get_from_cache_raises [OF client1])
  next
    assume "read_absent c ?k (world ?s1)"
    then show ?thesis by (rule get_from_cache_absent [OF client1])
  qed
  have st: "self ?s2 = self s \<and> world ?s2 = snd (cache_get c ?k (world s))"
    using get_from_cache_state [OF client1, of D ident] by simp
  have run: "get_editorial D url s =
               try_except (get_editorial_pipeline D ident) get_editorial_except ?s2"
    using a miss by (intro get_editorial_after_miss [where c = c]) simp_all
  have "fst (get_editorial_pipeline D ident ?s2) = Inr (ed, pd)"
    using a st by (intro pipeline_returns [where c = c and ?w2.0 = w2 and ?w3.0 = w3
          and ?w4.0 = w4 and ?w5.0 = w5 and turl = turl and td = td]) simp_all
  then show "fst (get_editorial D url s) = Inr (ed, pd)"
    unfolding run by (rule try_except_returns)
qed

theorem cache_fault_tolerance_witness:
  "read_raises test_domain broken_cache ''editorial:A'' []
   \<and> write_raises test_domain broken_cache ''editorial:A'' test_envelope []
   \<and> fst (get_from_cache test_domain test_identifier (test_state (Some broken_cache) True []))
       = Inr None
   \<and> fst (save_to_cache test_domain test_identifier test_editorial ''http://tutorial.com''
            Markdown (test_state (Some broken_cache) True []))
       = Inr ()
   \<and> fst (get_editorial test_domain test_url (test_state (Some broken_cache) True []))
       = Inr (test_editorial, ''Test Problem'')"
proof -
  let ?s = "test_state (Some broken_cache) True []"
  have key: "cache_key test_domain test_identifier = ''editorial:A''"
    by (simp add: test_defs)
  have env: "\<lparr> problem = test_identifier, editorial = test_editorial,
               tutorial_url = ''http://tutorial.com'', tutorial_format = Markdown \<rparr>
             = test_envelope"
    by (simp add: test_envelope_def)
  have fmt: "format test_domain (''Sort, then sweep.'', Markdown) = Markdown"
    by (simp add: test_domain_def)
  have w: "world ?s = []" by (simp add: test_defs)
  have h1: "use_cache (self ?s)" by (simp add: test_defs)
  have h2: "cache_client (self ?s) = Some broken_cache" by (simp add: test_defs)
  have h3: "URLParser_parse test_domain test_url = Inr test_identifier"
    by (simp add: test_domain_def)
  have rd: "read_raises test_domain broken_cache ''editorial:A'' []"
    by (simp add: read_raises_def broken_cache_def)
  have wr: "write_raises test_domain broken_cache ''editorial:A'' test_envelope []"
    by (simp add: write_raises_def broken_cache_def test_domain_def)
  have ws: "write_settles test_domain broken_cache ''editorial:A'' test_envelope []"
    by (simp add: write_settles_def broken_cache_def test_domain_def)
  have s1: "problem_parser (self ?s) test_identifier
              (snd (cache_get broken_cache ''editorial:A'' [])) = (Inr ''Test Problem'', [])"
    by (simp add: test_defs)
  have s2: "tutorial_finder (self ?s) test_identifier [] = (Inr ''http://tutorial.com'', [])"
    by (simp add: test_defs)
  have s3: "tutorial_parser (self ?s) ''http://tutorial.com'' []
              = (Inr (''Sort, then sweep.'', Markdown), [])"
    by (simp add: test_defs)
  have s4: "editorial_extractor (self ?s) (''Sort, then sweep.'', Markdown) test_identifier
              (title test_domain ''Test Problem'') [] = (Inr test_editorial, [])"
    by (simp add: test_defs)
  note inst = cache_fault_tolerance [where D = test_domain and ident = test_identifier
      and s = ?s and c = broken_cache and ed = test_editorial and turl = "''http://tutorial.com''"
      and fmt = Markdown and url = test_url and pd = "''Test Problem''"
      and td = "(''Sort, then sweep.'', Markdown)" and ?w2.0 = "[]" and ?w3.0 = "[]"
      and ?w4.0 = "[]" and ?w5.0 = "[]", unfolded key env fmt w]
  from inst h2 rd have a: "fst (get_from_cache test_domain test_identifier ?s) = Inr None"
    by blast
  from inst h2 wr have b: "fst (save_to_cache test_domain test_identifier test_editorial
       ''http://tutorial.com'' Markdown ?s) = Inr ()"
    by blast
  from inst h1 h2 h3 rd s1 s2 s3 s4 ws
  have c: "fst (get_editorial test_domain test_url ?s) = Inr (test_editorial, ''Test Problem'')"
    by blast
  from rd wr a b c show ?thesis by blast
qed

subsection \<open>Cache miss\<close>

lemma get_from_cache_ignores_trace:
  "fst (get_from_cache D ident (s\<lparr>trace := t\<rparr>)) = fst (get_from_cache D ident s)
   \<and> world (snd (get_from_cache D ident (s\<lparr>trace := t\<rparr>)))
       = world (snd (get_from_cache D ident s))"
  by (auto simp add: get_from_cache_def prog_defs
      split: option.splits prod.splits sum.splits)

lemma get_from_cache_calls:
  assumes "cache_client (self s) = Some c"
  shows "calls (trace (snd (get_from_cache D ident s)))
           = calls (trace s) @ [Cache_get (cache_key D ident)]"
  using assms
  by (auto simp add: get_from_cache_def prog_defs calls_def split: prod.splits sum.splits)

lemma pipeline_calls:
  assumes "use_cache (self s)" and "cache_client (self s) = Some c"
    and "problem_parser (self s) ident (world s) = (Inr pd, w2)"
    and "tutorial_finder (self s) ident w2 = (Inr turl, w3)"
    and "tutorial_parser (self s) turl w3 = (Inr td, w4)"
    and "editorial_extractor (self s) td ident (title D pd) w4 = (Inr ed, w5)"
  shows "calls (trace (snd (try_except (get_editorial_pipeline D ident) get_editorial_except s)))
           = calls (trace s)
             @ [Parse_problem_page ident, Find_tutorial ident,
                Tutorial_parse turl, Extract td ident (title D pd)]
             @ (case to_dict D \<lparr> problem = ident, editorial = ed, tutorial_url = turl,
                                 tutorial_format = format D td \<rparr> of
                  Inr raw' \<Rightarrow> [Cache_set (cache_key D ident) raw']
                | Inl _ \<Rightarrow> [])"
proof (cases "to_dict D \<lparr> problem = ident, editorial = ed, tutorial_url = turl,
                          tutorial_format = format D td \<rparr>")
  case (Inl e)
  with assms show ?thesis
    by (simp add: get_editorial_pipeline_def save_to_cache_def get_editorial_except_def
        prog_defs calls_def)
next
  case (Inr raw')
  obtain r w6 where "cache_set c (cache_key D ident) raw' w5 = (r, w6)"
    by (cases "cache_set c (cache_key D ident) raw' w5")
  with Inr assms show ?thesis
    by (cases r)
       (simp_all add: get_editorial_pipeline_def save_to_cache_def get_editorial_except_def
          prog_defs calls_def)
qed

text \<open>
  C4. On a call where caching is on, the lookup returns \<open>None\<close>, and the four pipeline
  steps return, the collaborator calls after the cache read are \<open>parse_problem_page\<close>,
  \<open>find_tutorial\<close>, the tutorial parser and the extractor, once each and in this order,
  and the store comes after them: the backend write of the serialized envelope of the
  produced editorial, under the identifier's key, when the serialization returns.
\<close>

theorem cache_miss_full_pipeline:
  assumes "use_cache (self s)" and "cache_client (self s) = Some c"
    and "URLParser_parse D url = Inr ident"
    and "fst (get_from_cache D ident s) = Inr None"
    and "problem_parser (self s) ident (world (snd (get_from_cache D ident s))) = (Inr pd, w2)"
    and "tutorial_finder (self s) ident w2 = (Inr turl, w3)"
    and "tutorial_parser (self s) turl w3 = (Inr td, w4)"
    and "editorial_extractor (self s) td ident (title D pd) w4 = (Inr ed, w5)"
  shows "calls (trace (snd (get_editorial D url s)))
           = calls (trace s)
             @ [Cache_get (cache_key D ident), Parse_problem_page ident, Find_tutorial ident,
                Tutorial_parse turl, Extract td ident (title D pd)]
             @ (case to_dict D \<lparr> problem = ident, editorial = ed, tutorial_url = turl,
                                 tutorial_format = format D td \<rparr> of
                  Inr raw' \<Rightarrow> [Cache_set (cache_key D ident) raw']
                | Inl _ \<Rightarrow> [])"
proof -
  let ?t1 = "trace s @
               [Log DEBUG ''Starting editorial extraction for URL: {url}'',
                Log DEBUG ''Resolved problem identifier: {identifier}'']"
  let ?s1 = "s\<lparr>trace := ?t1\<rparr>"
  let ?s2 = "snd (get_from_cache D ident ?s1)"
  have client1: "cache_client (self ?s1) = Some c"
    using assms(2) by simp
  have miss: "fst (get_from_cache D ident ?s1) = Inr None"
    using assms(4) get_from_cache_ignores_trace [where D = D and ident = ident and s = s and t = ?t1] by simp
  have w: "world ?s2 = world (snd (get_from_cache D ident s))"
    using get_from_cache_ignores_trace [where D = D and ident = ident and s = s and t = ?t1] by simp
  have slf: "self ?s2 = self s"
    using get_from_cache_state [OF client1, of D ident] by simp
  have before: "calls (trace ?s2) = calls (trace s) @ [Cache_get (cache_key D ident)]"
    using get_from_cache_calls [OF client1, of D ident] by (simp add: calls_def)
  have run: "get_editorial D url s =
               try_except (get_editorial_pipeline D ident) get_editorial_except ?s2"
    using assms(1-3) miss by (intro get_editorial_after_miss [where c = c]) simp_all
  have "calls (trace (snd (try_except (get_editorial_pipeline D ident) get_editorial_except ?s2)))
          = calls (trace ?s2)
            @ [Parse_problem_page ident, Find_tutorial ident,
               Tutorial_parse turl, Extract td ident (title D pd)]
            @ (case to_dict D \<lparr> problem = ident, editorial = ed, tutorial_url = turl,
                                tutorial_format = format D td \<rparr> of
                 Inr raw' \<Rightarrow> [Cache_set (cache_key D ident) raw']
               | Inl _ \<Rightarrow> [])"
    using assms slf w
    by (intro pipeline_calls [where c = c and ?w2.0 = w2 and ?w3.0 = w3 and ?w4.0 = w4
          and ?w5.0 = w5]) simp_all
  then show ?thesis
    unfolding run before by simp
qed

theorem cache_miss_full_pipeline_witness:
  "fst (get_from_cache test_domain test_identifier (test_state (Some dict_cache) True []))
     = Inr None
   \<and> calls (trace (snd (get_editorial test_domain test_url
                          (test_state (Some dict_cache) True []))))
       = [Cache_get ''editorial:A'', Parse_problem_page test_identifier,
          Find_tutorial test_identifier, Tutorial_parse ''http://tutorial.com'',
          Extract (''Sort, then sweep.'', Markdown) test_identifier ''Test Problem'',
          Cache_set ''editorial:A'' (CachedEditorial_to_dict test_envelope)]"
proof -
  let ?s = "test_state (Some dict_cache) True []"
  have h1: "use_cache (self ?s)" by (simp add: test_defs)
  have h2: "cache_client (self ?s) = Some dict_cache" by (simp add: test_defs)
  have h3: "URLParser_parse test_domain test_url = Inr test_identifier"
    by (simp add: test_domain_def)
  have h4: "fst (get_from_cache test_domain test_identifier ?s) = Inr None"
    by (simp add: get_from_cache_def prog_defs test_defs)
  have h5: "world (snd (get_from_cache test_domain test_identifier ?s)) = []"
    by (simp add: get_from_cache_def prog_defs test_defs)
  have h6: "problem_parser (self ?s) test_identifier
              (world (snd (get_from_cache test_domain test_identifier ?s)))
              = (Inr ''Test Problem'', [])"
    by (simp add: h5) (simp add: test_defs)
  have h7: "tutorial_finder (self ?s) test_identifier [] = (Inr ''http://tutorial.com'', [])"
    by (simp add: test_defs)
  have h8: "tutorial_parser (self ?s) ''http://tutorial.com'' []
              = (Inr (''Sort, then sweep.'', Markdown), [])"
    by (simp add: test_defs)
  have h9: "editorial_extractor (self ?s) (''Sort, then sweep.'', Markdown) test_identifier
              (title test_domain ''Test Problem'') [] = (Inr test_editorial, [])"
    by (simp add: test_defs)
  have key: "cache_key test_domain test_identifier = ''editorial:A''"
    by (simp add: test_defs)
  have ti: "title test_domain ''Test Problem'' = ''Test Problem''"
    by (simp add: test_domain_def)
  have start: "calls (trace ?s) = []" by (simp add: test_defs calls_def)
  have ser: "to_dict test_domain
               \<lparr> problem = test_identifier, editorial = test_editorial,
                 tutorial_url = ''http://tutorial.com'',
                 tutorial_format = format test_domain (''Sort, then sweep.'', Markdown) \<rparr>
             = Inr (CachedEditorial_to_dict test_envelope)"
    by (simp add: test_domain_def test_envelope_def)
  from cache_miss_full_pipeline [OF h1 h2 h3 h4 h6 h7 h8 h9] h4 show ?thesis
    by (simp add: key ti start ser)
qed

text \<open>
  C9. On a call where caching is on and the backend returns a falsy value for the key
  (an empty mapping, say), the lookup returns \<open>None\<close> and the call goes on as on a miss:
  it is the run of the pipeline of lines 60 to 86, under the two \<open>except\<close> clauses, from
  the state the cache read left, with the line \<open>Cache miss\<close> logged.
\<close>

theorem falsy_cached_value_is_miss:
  assumes "use_cache (self s)" and "cache_client (self s) = Some c"
    and "URLParser_parse D url = Inr ident"
    and "cache_get c (cache_key D ident) (world s) = (Inr raw, w1)"
    and "\<not> truthy raw"
  shows "fst (get_from_cache D ident s) = Inr None
       \<and> get_editorial D url s =
           try_except (get_editorial_pipeline D ident) get_editorial_except
             (s\<lparr>world := w1,
                trace := trace s @
                  [Log DEBUG ''Starting editorial extraction for URL: {url}'',
                   Log DEBUG ''Resolved problem identifier: {identifier}'',
                   Cache_get (cache_key D ident),
                   Log DEBUG ''Cache miss for {identifier.cache_key}'']\<rparr>)"
  using assms
  by (simp add: get_editorial_def get_editorial_try_def get_from_cache_def prog_defs)

theorem falsy_cached_value_is_miss_witness:
  "\<not> truthy (PyDict [])
   \<and> map_of [(''editorial:A'', PyDict [])] ''editorial:A'' = Some (PyDict [])
   \<and> fst (get_editorial test_domain test_url
            (test_state (Some dict_cache) True [(''editorial:A'', PyDict [])]))
       = Inr (test_editorial, ''Test Problem'')
   \<and> calls (trace (snd (get_editorial test_domain test_url
                          (test_state (Some dict_cache) True [(''editorial:A'', PyDict [])]))))
       = [Cache_get ''editorial:A'', Parse_problem_page test_identifier,
          Find_tutorial test_identifier, Tutorial_parse ''http://tutorial.com'',
          Extract (''Sort, then sweep.'', Markdown) test_identifier ''Test Problem'',
          Cache_set ''editorial:A'' (CachedEditorial_to_dict test_envelope)]"
proof -
  let ?w = "[(''editorial:A'', PyDict [])]"
  let ?s = "test_state (Some dict_cache) True ?w"
  have h1: "use_cache (self ?s)" by (simp add: test_defs)
  have h2: "cache_client (self ?s) = Some dict_cache" by (simp add: test_defs)
  have h3: "URLParser_parse test_domain test_url = Inr test_identifier"
    by (simp add: test_domain_def)
  have h4: "cache_get dict_cache (cache_key test_domain test_identifier) (world ?s)
              = (Inr (PyDict []), ?w)"
    by (simp add: test_defs)
  have h5: "\<not> truthy (PyDict [])" by simp
  note run = falsy_cached_value_is_miss [OF h1 h2 h3 h4 h5, THEN conjunct2]
  have "fst (get_editorial test_domain test_url ?s) = Inr (test_editorial, ''Test Problem'')"
    unfolding run
    by (simp add: get_editorial_pipeline_def save_to_cache_def prog_defs test_defs)
  moreover have "calls (trace (snd (get_editorial test_domain test_url ?s)))
       = [Cache_get ''editorial:A'', Parse_problem_page test_identifier,
          Find_tutorial test_identifier, Tutorial_parse ''http://tutorial.com'',
          Extract (''Sort, then sweep.'', Markdown) test_identifier ''Test Problem'',
          Cache_set ''editorial:A'' (CachedEditorial_to_dict test_envelope)]"
    unfolding run
    by (simp add: get_editorial_pipeline_def save_to_cache_def prog_defs test_defs calls_def)
  ultimately show ?thesis by simp
qed

subsection \<open>Errors\<close>

lemma try_except_raises:
  assumes "fst (m s) = Inl e" and "is_Exception e"
  shows "fst (try_except m get_editorial_except s) = Inl (surfaced e)"
  using assms
  by (cases "m s")
     (auto simp add: try_except_def get_editorial_except_def surfaced_def wrapped_def
        bindE_def log_def raiseE_def)

lemma get_editorial_after_hit:
  assumes "use_cache (self s)" and "cache_client (self s) = Some c"
    and "URLParser_parse D url = Inr ident"
    and "s1 = s\<lparr>trace := trace s @
                  [Log DEBUG ''Starting editorial extraction for URL: {url}'',
                   Log DEBUG ''Resolved problem identifier: {identifier}'']\<rparr>"
    and "fst (get_from_cache D ident s1) = Inr (Some ced)"
  shows "get_editorial D url s =
           try_except
             (bindE (\<lambda>s. call (Parse_problem_page ident) (problem_parser (self s) ident) s)
                (\<lambda>problem_data. returnE (ced, problem_data)))
             get_editorial_except
             (snd (get_from_cache D ident s1))"
proof -
  obtain r s2 where r: "get_from_cache D ident s1 = (r, s2)"
    by (cases "get_from_cache D ident s1")
  with assms(5) have "r = Inr (Some ced)" by simp
  with r assms(1-4) show ?thesis
    by (simp add: get_editorial_def get_editorial_try_def bindE_def log_def liftE_def
        try_except_def)
qed

lemma get_editorial_reaches_pipeline:
  assumes "URLParser_parse D url = Inr ident" and "reaches_pipeline D ident s w1"
  shows "\<exists>s2. get_editorial D url s =
                 try_except (get_editorial_pipeline D ident) get_editorial_except s2
             \<and> self s2 = self s \<and> world s2 = w1"
proof (cases "use_cache (self s) \<and> cache_client (self s) \<noteq> None")
  case False
  let ?s1 = "s\<lparr>trace := trace s @
                  [Log DEBUG ''Starting editorial extraction for URL: {url}'',
                   Log DEBUG ''Resolved problem identifier: {identifier}'']\<rparr>"
  have "get_editorial D url s =
          try_except (get_editorial_pipeline D ident) get_editorial_except ?s1"
    using False assms(1)
    by (auto simp add: get_editorial_def get_editorial_try_def bindE_def log_def liftE_def
        try_except_def)
  moreover have "self ?s1 = self s \<and> world ?s1 = w1"
    using False assms(2) by (auto simp add: reaches_pipeline_def)
  ultimately show ?thesis by blast
next
  case True
  then obtain c where on: "use_cache (self s)" and client: "cache_client (self s) = Some c"
    by auto
  let ?t1 = "trace s @
               [Log DEBUG ''Starting editorial extraction for URL: {url}'',
                Log DEBUG ''Resolved problem identifier: {identifier}'']"
  let ?s1 = "s\<lparr>trace := ?t1\<rparr>"
  let ?s2 = "snd (get_from_cache D ident ?s1)"
  from True assms(2) have none: "fst (get_from_cache D ident s) = Inr None"
    and w1: "w1 = world (snd (get_from_cache D ident s))"
    by (simp_all add: reaches_pipeline_def)
  have client1: "cache_client (self ?s1) = Some c"
    using client by simp
  have miss: "fst (get_from_cache D ident ?s1) = Inr None"
    using none get_from_cache_ignores_trace [where D = D and ident = ident and s = s and t = ?t1]
    by simp
  have w: "world ?s2 = w1"
    using w1 get_from_cache_ignores_trace [where D = D and ident = ident and s = s and t = ?t1]
    by simp
  have slf: "self ?s2 = self s"
    using get_from_cache_state [OF client1, of D ident] by simp
  have "get_editorial D url s =
          try_except (get_editorial_pipeline D ident) get_editorial_except ?s2"
    using on client assms(1) miss by (intro get_editorial_after_miss [where c = c]) simp_all
  with slf w show ?thesis by blast
qed

lemma pipeline_raises_at_fetch:
  assumes "problem_parser (self s) ident (world s) = (Inl e, w2)"
  shows "fst (get_editorial_pipeline D ident s) = Inl e"
  using assms by (simp add: get_editorial_pipeline_def prog_defs)

lemma pipeline_raises_at_locate:
  assumes "problem_parser (self s) ident (world s) = (Inr pd, w2)"
    and "tutorial_finder (self s) ident w2 = (Inl e, w3)"
  shows "fst (get_editorial_pipeline D ident s) = Inl e"
  using assms by (simp add: get_editorial_pipeline_def prog_defs)

lemma pipeline_raises_at_parse:
  assumes "problem_parser (self s) ident (world s) = (Inr pd, w2)"
    and "tutorial_finder (self s) ident w2 = (Inr turl, w3)"
    and "tutorial_parser (self s) turl w3 = (Inl e, w4)"
  shows "fst (get_editorial_pipeline D ident s) = Inl e"
  using assms by (simp add: get_editorial_pipeline_def prog_defs)

lemma pipeline_raises_at_extract:
  assumes "problem_parser (self s) ident (world s) = (Inr pd, w2)"
    and "tutorial_finder (self s) ident w2 = (Inr turl, w3)"
    and "tutorial_parser (self s) turl w3 = (Inr td, w4)"
    and "editorial_extractor (self s) td ident (title D pd) w4 = (Inl e, w5)"
  shows "fst (get_editorial_pipeline D ident s) = Inl e"
  using assms by (simp add: get_editorial_pipeline_def prog_defs)

lemma get_editorial_never_other_Exception:
  "fst (get_editorial D url s) \<noteq> Inl (StdException m)"
  by (auto simp add: get_editorial_def get_editorial_except_def prog_defs
      split: prod.splits sum.splits)

text \<open>
  C2. Let \<open>e\<close> be an exception of class \<open>Exception\<close>. Whichever step raises it, the
  URL parser, the problem-page fetch after a cache hit, or, once the call has reached the
  pipeline, the problem-page fetch, \<open>find_tutorial\<close>, the tutorial parser or the
  extractor after the steps before it returned, \<open>get_editorial\<close> raises \<open>surfaced e\<close>:
  \<open>e\<close> itself when \<open>e\<close> is a domain error, and otherwise the domain error whose cause is
  \<open>e\<close>, one layer of wrapping around an exception that is not a domain error. No call
  raises an \<open>Exception\<close> outside the domain class.
\<close>

theorem error_normalization:
  assumes "is_Exception e"
  shows
    "(URLParser_parse D url = Inl e \<longrightarrow> fst (get_editorial D url s) = Inl (surfaced e))
   \<and> (URLParser_parse D url = Inr ident
        \<and> use_cache (self s) \<and> cache_client (self s) = Some c
        \<and> fst (get_from_cache D ident s) = Inr (Some ced)
        \<and> problem_parser (self s) ident (world (snd (get_from_cache D ident s))) = (Inl e, w2) \<longrightarrow>
        fst (get_editorial D url s) = Inl (surfaced e))
   \<and> (URLParser_parse D url = Inr ident \<and> reaches_pipeline D ident s w1
        \<and> problem_parser (self s) ident w1 = (Inl e, w2) \<longrightarrow>
        fst (get_editorial D url s) = Inl (surfaced e))
   \<and> (URLParser_parse D url = Inr ident \<and> reaches_pipeline D ident s w1
        \<and> problem_parser (self s) ident w1 = (Inr pd, w2)
        \<and> tutorial_finder (self s) ident w2 = (Inl e, w3) \<longrightarrow>
        fst (get_editorial D url s) = Inl (surfaced e))
   \<and> (URLParser_parse D url = Inr ident \<and> reaches_pipeline D ident s w1
        \<and> problem_parser (self s) ident w1 = (Inr pd, w2)
        \<and> tutorial_finder (self s) ident w2 = (Inr turl, w3)
        \<and> tutorial_parser (self s) turl w3 = (Inl e, w4) \<longrightarrow>
        fst (get_editorial D url s) = Inl (surfaced e))
   \<and> (URLParser_parse D url = Inr ident \<and> reaches_pipeline D ident s w1
        \<and> problem_parser (self s) ident w1 = (Inr pd, w2)
        \<and> tutorial_finder (self s) ident w2 = (Inr turl, w3)
        \<and> tutorial_parser (self s) turl w3 = (Inr td, w4)
        \<and> editorial_extractor (self s) td ident (title D pd) w4 = (Inl e, w5) \<longrightarrow>
        fst (get_editorial D url s) = Inl (surfaced e))
   \<and> (is_domain e \<longrightarrow> surfaced e = e)
   \<and> (\<not> is_domain e \<longrightarrow>
        surfaced e = CodeforcesEditorialError (''Failed to get editorial: '' @ str_exn e) (Some e))
   \<and> (\<forall>m. fst (get_editorial D url s) \<noteq> Inl (StdException m))"
proof (intro conjI impI allI)
  assume "URLParser_parse D url = Inl e"
  with assms show "fst (get_editorial D url s) = Inl (surfaced e)"
    by (simp add: get_editorial_def get_editorial_try_def get_editorial_except_def
        surfaced_def wrapped_def prog_defs)
next
  let ?t1 = "trace s @
               [Log DEBUG ''Starting editorial extraction for URL: {url}'',
                Log DEBUG ''Resolved problem identifier: {identifier}'']"
  let ?s1 = "s\<lparr>trace := ?t1\<rparr>"
  let ?s2 = "snd (get_from_cache D ident ?s1)"
  assume a: "URLParser_parse D url = Inr ident
        \<and> use_cache (self s) \<and> cache_client (self s) = Some c
        \<and> fst (get_from_cache D ident s) = Inr (Some ced)
        \<and> problem_parser (self s) ident (world (snd (get_from_cache D ident s))) = (Inl e, w2)"
  have client1: "cache_client (self ?s1) = Some c"
    using a by simp
  have hit: "fst (get_from_cache D ident ?s1) = Inr (Some ced)"
    using a get_from_cache_ignores_trace [where D = D and ident = ident and s = s and t = ?t1]
    by simp
  have w: "world ?s2 = world (snd (get_from_cache D ident s))"
    using get_from_cache_ignores_trace [where D = D and ident = ident and s = s and t = ?t1]
    by simp
  have slf: "self ?s2 = self s"
    using get_from_cache_state [OF client1, of D ident] by simp
  have run: "get_editorial D url s =
           try_except
             (bindE (\<lambda>s. call (Parse_problem_page ident) (problem_parser (self s) ident) s)
                (\<lambda>problem_data. returnE (ced, problem_data)))
             get_editorial_except ?s2"
    using a hit by (intro get_editorial_after_hit [where c = c]) simp_all
  have "fst (bindE (\<lambda>s. call (Parse_problem_page ident) (problem_parser (self s) ident) s)
                (\<lambda>problem_data. returnE (ced, problem_data)) ?s2) = Inl e"
    using a slf w by (simp add: bindE_def call_def)
  then show "fst (get_editorial D url s) = Inl (surfaced e)"
    unfolding run using assms by (rule try_except_raises)
next
  assume a: "URLParser_parse D url = Inr ident \<and> reaches_pipeline D ident s w1
        \<and> problem_parser (self s) ident w1 = (Inl e, w2)"
  then obtain s2 where run: "get_editorial D url s =
      try_except (get_editorial_pipeline D ident) get_editorial_except s2"
    and st: "self s2 = self s" "world s2 = w1"
    using get_editorial_reaches_pipeline [of D url ident s w1] by blast
  have "fst (get_editorial_pipeline D ident s2) = Inl e"
    using a st by (intro pipeline_raises_at_fetch [where ?w2.0 = w2]) simp
  then show "fst (get_editorial D url s) = Inl (surfaced e)"
    unfolding run using assms by (rule try_except_raises)
next
  assume a: "URLParser_parse D url = Inr ident \<and> reaches_pipeline D ident s w1
        \<and> problem_parser (self s) ident w1 = (Inr pd, w2)
        \<and> tutorial_finder (self s) ident w2 = (Inl e, w3)"
  then obtain s2 where run: "get_editorial D url s =
      try_except (get_editorial_pipeline D ident) get_editorial_except s2"
    and st: "self s2 = self s" "world s2 = w1"
    using get_editorial_reaches_pipeline [of D url ident s w1] by blast
  have "fst (get_editorial_pipeline D ident s2) = Inl e"
    using a st
    by (intro pipeline_raises_at_locate [where ?w2.0 = w2 and ?w3.0 = w3 and pd = pd])
       simp_all
  then show "fst (get_editorial D url s) = Inl (surfaced e)"
    unfolding run using assms by (rule try_except_raises)
next
  assume a: "URLParser_parse D url = Inr ident \<and> reaches_pipeline D ident s w1
        \<and> problem_parser (self s) ident w1 = (Inr pd, w2)
        \<and> tutorial_finder (self s) ident w2 = (Inr turl, w3)
        \<and> tutorial_parser (self s) turl w3 = (Inl e, w4)"
  then obtain s2 where run: "get_editorial D url s =
      try_except (get_editorial_pipeline D ident) get_editorial_except s2"
    and st: "self s2 = self s" "world s2 = w1"
    using get_editorial_reaches_pipeline [of D url ident s w1] by blast
  have "fst (get_editorial_pipeline D ident s2) = Inl e"
    using a st
    by (intro pipeline_raises_at_parse [where ?w2.0 = w2 and ?w3.0 = w3 and ?w4.0 = w4
          and pd = pd and turl = turl])
       simp_all
  then show "fst (get_editorial D url s) = Inl (surfaced e)"
    unfolding run using assms by (rule try_except_raises)
next
  assume a: "URLParser_parse D url = Inr ident \<and> reaches_pipeline D ident s w1
        \<and> problem_parser (self s) ident w1 = (Inr pd, w2)
        \<and> tutorial_finder (self s) ident w2 = (Inr turl, w3)
        \<and> tutorial_parser (self s) turl w3 = (Inr td, w4)
        \<and> editorial_extractor (self s) td ident (title D pd) w4 = (Inl e, w5)"
  then obtain s2 where run: "get_editorial D url s =
      try_except (get_editorial_pipeline D ident) get_editorial_except s2"
    and st: "self s2 = self s" "world s2 = w1"
    using get_editorial_reaches_pipeline [of D url ident s w1] by blast
  have "fst (get_editorial_pipeline D ident s2) = Inl e"
    using a st
    by (intro pipeline_raises_at_extract [where ?w2.0 = w2 and ?w3.0 = w3 and ?w4.0 = w4
          and ?w5.0 = w5 and pd = pd and turl = turl and td = td])
       simp_all
  then show "fst (get_editorial D url s) = Inl (surfaced e)"
    unfolding run using assms by (rule try_except_raises)
next
  assume "is_domain e"
  then show "surfaced e = e" by (simp add: surfaced_def)
next
  assume "\<not> is_domain e"
  then show "surfaced e
      = CodeforcesEditorialError (''Failed to get editorial: '' @ str_exn e) (Some e)"
    by (simp add: surfaced_def wrapped_def)
next
  fix m show "fst (get_editorial D url s) \<noteq> Inl (StdException m)"
    by (rule get_editorial_never_other_Exception)
qed

theorem error_normalization_witness:
  "fst (get_editorial test_domain ''ftp://nowhere'' (test_state None True []))
     = Inl (CodeforcesEditorialError ''Invalid URL'' None)
   \<and> fst (get_editorial test_domain test_url
            (failing_fetch_state (Some dict_cache) True warm_store))
     = Inl (CodeforcesEditorialError ''Failed to get editorial: TimeoutError''
              (Some (StdException ''TimeoutError'')))
   \<and> fst (get_editorial test_domain test_url (failing_fetch_state (Some dict_cache) True []))
     = Inl (CodeforcesEditorialError ''Failed to get editorial: TimeoutError''
              (Some (StdException ''TimeoutError'')))
   \<and> fst (get_editorial test_domain test_url
            (patched_state
               (\<lambda>orc. orc\<lparr>tutorial_finder :=
                  \<lambda>i w. (Inl (CodeforcesEditorialError ''Tutorial not found'' None), w)\<rparr>)
               None True []))
     = Inl (CodeforcesEditorialError ''Tutorial not found'' None)
   \<and> fst (get_editorial test_domain test_url
            (patched_state
               (\<lambda>orc. orc\<lparr>tutorial_parser := \<lambda>u w. (Inl (StdException ''FetchError''), w)\<rparr>)
               None True []))
     = Inl (CodeforcesEditorialError ''Failed to get editorial: FetchError''
              (Some (StdException ''FetchError'')))
   \<and> fst (get_editorial test_domain test_url
            (patched_state
               (\<lambda>orc. orc\<lparr>editorial_extractor :=
                  \<lambda>t i ti w. (Inl (StdException ''ExtractionError''), w)\<rparr>)
               None True []))
     = Inl (CodeforcesEditorialError ''Failed to get editorial: ExtractionError''
              (Some (StdException ''ExtractionError'')))"
proof -
  let ?invalid = "CodeforcesEditorialError ''Invalid URL'' None"
  let ?timeout = "StdException ''TimeoutError''"
  let ?missing = "CodeforcesEditorialError ''Tutorial not found'' None"
  let ?fetch = "StdException ''FetchError''"
  let ?extraction = "StdException ''ExtractionError''"
  let ?td = "(''Sort, then sweep.'', Markdown)"
  have url: "URLParser_parse test_domain test_url = Inr test_identifier"
    by (simp add: test_domain_def)

  have a: "fst (get_editorial test_domain ''ftp://nowhere'' (test_state None True []))
             = Inl ?invalid"
  proof -
    have h: "URLParser_parse test_domain ''ftp://nowhere'' = Inl ?invalid"
      by (simp add: test_domain_def test_url_def)
    from error_normalization [where e = ?invalid and D = test_domain
        and url = "''ftp://nowhere''" and s = "test_state None True []"] h
    show ?thesis by (simp add: surfaced_def)
  qed

  have b: "fst (get_editorial test_domain test_url
                  (failing_fetch_state (Some dict_cache) True warm_store))
             = Inl (CodeforcesEditorialError ''Failed to get editorial: TimeoutError''
                      (Some ?timeout))"
  proof -
    let ?s = "failing_fetch_state (Some dict_cache) True warm_store"
    have h1: "use_cache (self ?s)" and h2: "cache_client (self ?s) = Some dict_cache"
      by (simp_all add: test_defs)
    have h3: "fst (get_from_cache test_domain test_identifier ?s) = Inr (Some test_editorial)"
      by (simp add: get_from_cache_def prog_defs test_defs repr_defs format_from_str_def)
    have h4: "world (snd (get_from_cache test_domain test_identifier ?s)) = warm_store"
      by (simp add: get_from_cache_def prog_defs test_defs repr_defs format_from_str_def)
    have h5: "problem_parser (self ?s) test_identifier
                (world (snd (get_from_cache test_domain test_identifier ?s)))
                = (Inl ?timeout, warm_store)"
      by (simp add: h4) (simp add: test_defs)
    from error_normalization [where e = ?timeout and D = test_domain and url = test_url
        and s = ?s and ident = test_identifier and c = dict_cache and ced = test_editorial
        and ?w2.0 = warm_store] url h1 h2 h3 h5
    show ?thesis by (simp add: surfaced_def wrapped_def)
  qed

  have c: "fst (get_editorial test_domain test_url (failing_fetch_state (Some dict_cache) True []))
             = Inl (CodeforcesEditorialError ''Failed to get editorial: TimeoutError''
                      (Some ?timeout))"
  proof -
    let ?s = "failing_fetch_state (Some dict_cache) True []"
    have h1: "reaches_pipeline test_domain test_identifier ?s []"
      by (simp add: reaches_pipeline_def get_from_cache_def prog_defs test_defs)
    have h2: "problem_parser (self ?s) test_identifier [] = (Inl ?timeout, [])"
      by (simp add: test_defs)
    from error_normalization [where e = ?timeout and D = test_domain and url = test_url
        and s = ?s and ident = test_identifier and ?w1.0 = "[]" and ?w2.0 = "[]"] url h1 h2
    show ?thesis by (simp add: surfaced_def wrapped_def)
  qed

  have d: "fst (get_editorial test_domain test_url
                  (patched_state
                     (\<lambda>orc. orc\<lparr>tutorial_finder := \<lambda>i w. (Inl ?missing, w)\<rparr>) None True []))
             = Inl ?missing"
  proof -
    let ?s = "patched_state
                (\<lambda>orc. orc\<lparr>tutorial_finder := \<lambda>i w. (Inl ?missing, w)\<rparr>) None True []"
    have h1: "reaches_pipeline test_domain test_identifier ?s []"
      by (simp add: reaches_pipeline_def test_defs)
    have h2: "problem_parser (self ?s) test_identifier [] = (Inr ''Test Problem'', [])"
      by (simp add: test_defs)
    have h3: "tutorial_finder (self ?s) test_identifier [] = (Inl ?missing, [])"
      by (simp add: test_defs)
    from error_normalization [where e = ?missing and D = test_domain and url = test_url
        and s = ?s and ident = test_identifier and ?w1.0 = "[]" and ?w2.0 = "[]"
        and ?w3.0 = "[]" and pd = "''Test Problem''"] url h1 h2 h3
    show ?thesis by (simp add: surfaced_def)
  qed

  have e: "fst (get_editorial test_domain test_url
                  (patched_state
                     (\<lambda>orc. orc\<lparr>tutorial_parser := \<lambda>u w. (Inl ?fetch, w)\<rparr>) None True []))
             = Inl (CodeforcesEditorialError ''Failed to get editorial: FetchError''
                      (Some ?fetch))"
  proof -
    let ?s = "patched_state
                (\<lambda>orc. orc\<lparr>tutorial_parser := \<lambda>u w. (Inl ?fetch, w)\<rparr>) None True []"
    have h1: "reaches_pipeline test_domain test_identifier ?s []"
      by (simp add: reaches_pipeline_def test_defs)
    have h2: "problem_parser (self ?s) test_identifier [] = (Inr ''Test Problem'', [])"
      by (simp add: test_defs)
    have h3: "tutorial_finder (self ?s) test_identifier [] = (Inr ''http://tutorial.com'', [])"
      by (simp add: test_defs)
    have h4: "tutorial_parser (self ?s) ''http://tutorial.com'' [] = (Inl ?fetch, [])"
      by (simp add: test_defs)
    from error_normalization [where e = ?fetch and D = test_domain and url = test_url
        and s = ?s and ident = test_identifier and ?w1.0 = "[]" and ?w2.0 = "[]"
        and ?w3.0 = "[]" and ?w4.0 = "[]" and pd = "''Test Problem''"
        and turl = "''http://tutorial.com''"] url h1 h2 h3 h4
    show ?thesis by (simp add: surfaced_def wrapped_def)
  qed

  have f: "fst (get_editorial test_domain test_url
                  (patched_state
                     (\<lambda>orc. orc\<lparr>editorial_extractor := \<lambda>t i ti w. (Inl ?extraction, w)\<rparr>)
                     None True []))
             = Inl (CodeforcesEditorialError ''Failed to get editorial: ExtractionError''
                      (Some ?extraction))"
  proof -
    let ?s = "patched_state
                (\<lambda>orc. orc\<lparr>editorial_extractor := \<lambda>t i ti w. (Inl ?extraction, w)\<rparr>)
                None True []"
    have h1: "reaches_pipeline test_domain test_identifier ?s []"
      by (simp add: reaches_pipeline_def test_defs)
    have h2: "problem_parser (self ?s) test_identifier [] = (Inr ''Test Problem'', [])"
      by (simp add: test_defs)
    have h3: "tutorial_finder (self ?s) test_identifier [] = (Inr ''http://tutorial.com'', [])"
      by (simp add: test_defs)
    have h4: "tutorial_parser (self ?s) ''http://tutorial.com'' [] = (Inr ?td, [])"
      by (simp add: test_defs)
    have h5: "editorial_extractor (self ?s) ?td test_identifier
                (title test_domain ''Test Problem'') [] = (Inl ?extraction, [])"
      by (simp add: test_defs)
    from error_normalization [where e = ?extraction and D = test_domain and url = test_url
        and s = ?s and ident = test_identifier and ?w1.0 = "[]" and ?w2.0 = "[]"
        and ?w3.0 = "[]" and ?w4.0 = "[]" and ?w5.0 = "[]" and pd = "''Test Problem''"
        and turl = "''http://tutorial.com''" and td = ?td] url h1 h2 h3 h4 h5
    show ?thesis by (simp add: surfaced_def wrapped_def)
  qed

  from a b c d e f show ?thesis by (intro conjI)
qed

subsection \<open>Disabled cache and clearing\<close>

text \<open>
  C5, as the code has it. For an orchestrator constructed with \<open>use_cache\<close> false or
  with no cache client, \<open>get_editorial\<close> makes no call to the cache backend. With no
  cache client, \<open>clear_cache\<close> returns without raising and changes nothing but the log,
  where it leaves a warning. (With \<open>use_cache\<close> false and a cache client, \<open>clear_cache\<close>
  flushes the backend: the guard of \<open>clear_cache\<close> is the client alone.)
\<close>

theorem disabled_cache_never_reads_or_writes:
  assumes "self s = init D http ai cc uc" and "\<not> uc \<or> cc = None"
  shows "cache_calls (trace (snd (get_editorial D url s))) = cache_calls (trace s)
       \<and> (cc = None \<longrightarrow>
            clear_cache s =
              (Inr (), s\<lparr>trace := trace s @ [Log WARNING ''Cache is not enabled'']\<rparr>))"
proof -
  have off: "disabled s"
    using assms by (auto simp: init_def disabled_def)
  have "quiet s (snd (get_editorial D url s))"
    using quiet_get_editorial [of D url] by (simp add: stable_def)
  with off have "cache_calls (trace (snd (get_editorial D url s))) = cache_calls (trace s)"
    by (simp add: quiet_def)
  moreover have "cc = None \<longrightarrow>
      clear_cache s = (Inr (), s\<lparr>trace := trace s @ [Log WARNING ''Cache is not enabled'']\<rparr>)"
    using assms by (simp add: clear_cache_def init_def prog_defs)
  ultimately show ?thesis by simp
qed

theorem disabled_cache_never_reads_or_writes_witness:
  "cache_calls (trace (snd (get_editorial test_domain test_url
                             (test_state (Some dict_cache) False warm_store)))) = []
   \<and> cache_calls (trace (snd (get_editorial test_domain test_url
                             (test_state None True warm_store)))) = []
   \<and> clear_cache (test_state None True warm_store)
       = (Inr (), (test_state None True warm_store)
                    \<lparr>trace := [Log WARNING ''Cache is not enabled'']\<rparr>)"
proof -
  let ?a = "test_state (Some dict_cache) False warm_store"
  let ?b = "test_state None True warm_store"
  have a: "self ?a = init test_domain 1 2 (Some dict_cache) False"
    by (simp add: test_state_def)
  have b: "self ?b = init test_domain 1 2 None True"
    by (simp add: test_state_def)
  have ta: "trace ?a = []" and tb: "trace ?b = []"
    by (simp_all add: test_state_def)
  from disabled_cache_never_reads_or_writes [OF a, of test_url]
    disabled_cache_never_reads_or_writes [OF b, of test_url]
  show ?thesis
    by (simp add: ta tb cache_calls_def)
qed

text \<open>
  C5, as the claim has it, fails: an orchestrator constructed with \<open>use_cache\<close> false and
  a cache client has \<open>use_cache\<close> false, and its \<open>clear_cache\<close> flushes the backend, so it
  empties a filled cache and raises what a broken backend raises.
\<close>

theorem disabled_cache_clear_counterexample:
  "\<not> use_cache (self (test_state (Some dict_cache) False warm_store))
   \<and> world (test_state (Some dict_cache) False warm_store) \<noteq> []
   \<and> world (snd (clear_cache (test_state (Some dict_cache) False warm_store))) = []
   \<and> calls (trace (snd (clear_cache (test_state (Some dict_cache) False warm_store))))
       = [Cache_flushdb]
   \<and> \<not> use_cache (self (test_state (Some broken_cache) False []))
   \<and> fst (clear_cache (test_state (Some broken_cache) False []))
       = Inl (StdException ''ConnectionError'')"
  by (simp add: clear_cache_def prog_defs test_defs calls_def)

text \<open>
  C6. With a cache client, \<open>clear_cache\<close> logs, calls the client's \<open>flushdb\<close> once, and
  its outcome is the outcome of that call: the world \<open>flushdb\<close> leaves, and the exception
  \<open>flushdb\<close> raises, as it is. With no cache client it returns, and the only change is
  the warning in the log.
\<close>

theorem clear_cache_flushes_or_warns:
  "(cache_client (self s) = Some c \<longrightarrow>
      clear_cache s =
        (fst (flushdb c (world s)),
         s\<lparr>world := snd (flushdb c (world s)),
           trace := trace s @ [Log INFO ''Clearing cache'', Cache_flushdb]\<rparr>))
   \<and> (cache_client (self s) = None \<longrightarrow>
      clear_cache s = (Inr (), s\<lparr>trace := trace s @ [Log WARNING ''Cache is not enabled'']\<rparr>))"
  by (simp add: clear_cache_def prog_defs split: prod.splits)

theorem clear_cache_flushes_or_warns_witness:
  "cache_client (self (test_state (Some dict_cache) True warm_store)) = Some dict_cache
   \<and> fst (clear_cache (test_state (Some dict_cache) True warm_store)) = Inr ()
   \<and> world (snd (clear_cache (test_state (Some dict_cache) True warm_store))) = []
   \<and> cache_client (self (test_state (Some broken_cache) True [])) = Some broken_cache
   \<and> fst (clear_cache (test_state (Some broken_cache) True []))
       = Inl (StdException ''ConnectionError'')
   \<and> cache_client (self (test_state None True [])) = None
   \<and> clear_cache (test_state None True [])
       = (Inr (), (test_state None True [])\<lparr>trace := [Log WARNING ''Cache is not enabled'']\<rparr>)"
proof -
  let ?d = "test_state (Some dict_cache) True warm_store"
  let ?b = "test_state (Some broken_cache) True []"
  let ?n = "test_state None True []"
  have d: "cache_client (self ?d) = Some dict_cache"
    and b: "cache_client (self ?b) = Some broken_cache"
    and n: "cache_client (self ?n) = None"
    by (simp_all add: test_state_def init_def)
  have fd: "flushdb dict_cache (world ?d) = (Inr (), [])"
    by (simp add: dict_cache_def)
  have fb: "flushdb broken_cache (world ?b) = (Inl (StdException ''ConnectionError''), [])"
    by (simp add: broken_cache_def test_state_def)
  have tn: "trace ?n = []" by (simp add: test_state_def)
  from clear_cache_flushes_or_warns [of ?d dict_cache]
    clear_cache_flushes_or_warns [of ?b broken_cache]
    clear_cache_flushes_or_warns [of ?n] d b n
  show ?thesis
    by (simp add: fd fb tn)
qed

subsection \<open>The envelope\<close>

text \<open>
  C7. Deserializing the representation of a cache envelope gives the envelope back: the
  identifier, the editorial, the tutorial URL and the tutorial format are the ones that
  were serialized.
\<close>

theorem cached_editorial_round_trip:
  "CachedEditorial_from_dict (CachedEditorial_to_dict x) = Inr x"
  by (simp add: repr_defs as_strs_map format_from_str_to_str)

theorem cached_editorial_round_trip_witness:
  "CachedEditorial_from_dict
     (PyDict [(''problem'', PyDict [(''contest_id'', PyInt 1234), (''problem_index'', PyStr ''A'')]),
              (''editorial'', PyDict [(''sections'', PyList [PyStr ''Greedy from the left.''])]),
              (''tutorial_url'', PyStr ''http://tutorial.com''),
              (''tutorial_format'', PyStr ''markdown'')])
     = Inr test_envelope"
  using cached_editorial_round_trip [of test_envelope]
  by (simp add: CachedEditorial_to_dict_def identifier_to_dict_def editorial_to_dict_def
      test_envelope_def test_identifier_def test_editorial_def)

subsection \<open>Frame\<close>

text \<open>
  C8. Whatever a call of \<open>get_editorial\<close> does, returning or raising, it leaves every
  field of the orchestrator as it was, it only adds to what has happened, and it never
  flushes the cache: its only calls to the cache backend are reads and writes.
\<close>

theorem get_editorial_frame:
  "self (snd (get_editorial D url s)) = self s
   \<and> (\<exists>evs. trace (snd (get_editorial D url s)) = trace s @ evs \<and> Cache_flushdb \<notin> set evs)"
  using keeps_get_editorial [of D url] by (simp add: stable_def keeps_def)

theorem get_editorial_frame_witness:
  "self (snd (get_editorial test_domain test_url (test_state (Some dict_cache) True [])))
     = init test_domain 1 2 (Some dict_cache) True
   \<and> self (snd (get_editorial test_domain test_url (failing_fetch_state None True [])))
     = self (failing_fetch_state None True [])"
  using get_editorial_frame [of test_domain test_url "test_state (Some dict_cache) True []"]
    get_editorial_frame [of test_domain test_url "failing_fetch_state None True []"]
  by (simp add: test_state_def)

end
